theory Spec2Isabelle
  imports Complex_Main "HOL-Library.AList"
begin

section \<open>JavaScript values used by the client\<close>

text \<open>
  A thrown JavaScript error. The client only ever reads the \<open>message\<close> of what it
  catches (\<open>error instanceof Error ? error.message : String(error)\<close>), so an error is
  its class together with its message.
\<close>

datatype js_error = Error string | TypeError string

fun message :: "js_error \<Rightarrow> string" where
  "message (Error m) = m"
| "message (TypeError m) = m"

text \<open>
  \<open>[...new Set(xs)]\<close>: a \<open>Set\<close> keeps its elements in insertion order and ignores the
  insertion of an element it already holds.
\<close>

definition new_Set :: "'a list \<Rightarrow> 'a list" where
  "new_Set xs = fold (\<lambda>x s. if x \<in> set s then s else s @ [x]) xs []"

text \<open>
  A plain object \<open>{}\<close> with string keys is an association list in insertion order:
  \<open>obj[k] = v\<close> is \<^const>\<open>AList.update\<close> (an existing key keeps its place, a new key
  goes last) and reading an own key is \<^const>\<open>map_of\<close>. A key that is not an own key
  is looked up in \<open>Object.prototype\<close>, whose members are all truthy (functions, and
  the prototype object itself for \<open>__proto__\<close>).
\<close>

type_synonym 'v js_object = "(string \<times> 'v) list"

definition Object_prototype_keys :: "string list" where
  "Object_prototype_keys =
    [''constructor'', ''__defineGetter__'', ''__defineSetter__'', ''hasOwnProperty'',
     ''__lookupGetter__'', ''__lookupSetter__'', ''isPrototypeOf'', ''propertyIsEnumerable'',
     ''toString'', ''valueOf'', ''__proto__'', ''toLocaleString'']"

section \<open>The domain taxonomy\<close>

definition code_node_types :: "string list" where
  "code_node_types =
    [''Codebase'', ''Package'', ''Directory'', ''File'', ''Module'', ''Namespace'', ''Class'',
     ''Interface'', ''Enum'', ''TypeAlias'', ''Function'', ''Method'', ''Constructor'',
     ''Property'', ''Variable'', ''Parameter'', ''JsxElement'', ''JsxAttribute'', ''Test'',
     ''Component'', ''Dependency'', ''TypeDefinition'', ''ASTNodeInfo'', ''InterfaceProperty'',
     ''VueComponent'', ''ComponentTemplate'', ''ComponentScript'', ''ComponentStyle'',
     ''Prop'', ''Emit'', ''ReactiveState'', ''Composable'', ''SassVariable'', ''SassMixin'',
     ''SassModule'']"

definition mind_node_types :: "string list" where
  "mind_node_types =
    [''Hypothesis'', ''Reflection'', ''Insight'', ''Question'', ''Decision'', ''Pattern'',
     ''Task'', ''Subtask'', ''Agent'', ''Verification'', ''Result'', ''Orientation'']"

definition crypto_node_types :: "string list" where
  "crypto_node_types =
    [''Layer0'', ''Layer1'', ''Layer2'', ''Layer3'', ''Token'', ''InteroperabilitySolution'',
     ''Organization'', ''Event'', ''Person'', ''DApp'', ''Protocol'', ''Validator'',
     ''GovernanceStructure'', ''RegulatoryApproach'', ''TechnicalArchitecture'',
     ''UserDemographic'',
     ''L2Sequencer'', ''L2Validator'', ''L2DApp'', ''L2Bridge'', ''L2SecurityIncident'']"

definition media_node_types :: "string list" where
  "media_node_types =
    [''Artist'', ''Album'', ''Song'', ''Tour'', ''Residency'', ''Award'', ''Media'',
     ''RecordLabel'', ''Event'', ''Organization'', ''Product'', ''Location'', ''Genre'',
     ''LyricSection'', ''Annotation'', ''Theme'', ''LinguisticDevice'', ''Source'']"

definition DOMAIN_NODE_TYPES :: "string list js_object" where
  "DOMAIN_NODE_TYPES =
    [(''code'', code_node_types), (''mind'', mind_node_types),
     (''crypto'', crypto_node_types), (''media'', media_node_types)]"

definition code_relationship_types :: "string list" where
  "code_relationship_types =
    [''IMPORTS'', ''IMPORTS_FROM_PACKAGE'', ''IMPORTS_TYPES'', ''IMPORTS_TYPES_FROM_PACKAGE'',
     ''EXPORTS_LOCAL'', ''EXPORTS_DEFAULT'', ''REEXPORTS'', ''REEXPORTS_FROM_PACKAGE'',
     ''REEXPORTS_ALL'', ''EXTENDS'', ''INTERFACE_EXTENDS'', ''IMPLEMENTS'', ''CALLS'',
     ''CONTAINS'', ''HAS_METHOD'', ''HAS_PARAMETER'', ''HAS_PROPERTY'', ''REFERENCES_TYPE'',
     ''REFERENCES_VARIABLE'', ''DEPENDS_ON'', ''IS_DECORATED_BY'', ''TESTS'', ''RENDERS'',
     ''USES_HOOK'', ''AST_PARENT_CHILD'', ''DEFINES_VARIABLE'', ''DEFINES_FUNCTION'',
     ''DEFINES_INTERFACE'', ''DEFINES_CLASS'', ''DEFINES_TYPE_ALIAS'', ''DEFINES_ENUM'',
     ''DEFINES_NAMESPACE'', ''DEFINES_MODULE'', ''DEFINES_COMPONENT'',
     ''DEFINES_VUE_COMPONENT'',
     ''PROVIDES_PROPS'', ''LISTENS_TO'', ''USES_SLOT'', ''USES_COMPOSABLE'', ''IMPORTS_AUTO'',
     ''REGISTERS_AUTO'', ''IMPORTS_SASS'', ''USES_VARIABLE'', ''INCLUDES_MIXIN'']"

definition mind_relationship_types :: "string list" where
  "mind_relationship_types =
    [''SUGGESTS'', ''BASED_ON'', ''LEADS_TO'', ''ANSWERS'', ''CONTRADICTS'', ''REFINES'',
     ''IDENTIFIES'', ''EVOLVES_TO'', ''APPLIES_TO'', ''IMPLEMENTS_DECISION'', ''ADDRESSES'',
     ''RESOLVES'', ''APPLIES'', ''MODIFIES'', ''TASK_DEPENDS_ON'', ''TASK_BLOCKED_BY'',
     ''DECOMPOSES_TO'', ''EXECUTED_BY'', ''VERIFIED_BY'']"

definition crypto_relationship_types :: "string list" where
  "crypto_relationship_types =
    [''BUILDS_ON'', ''CONNECTS'', ''ISSUES'', ''DEVELOPS'', ''SUPPORTS'', ''BRIDGES'',
     ''PARTNERS_WITH'',
     ''COMPETES_WITH'', ''FORKED_FROM'', ''INVESTED_IN'', ''GOVERNS'', ''INFLUENCED_BY'',
     ''PARTICIPATES_IN_GOVERNANCE'', ''CONTRIBUTES_REVENUE_TO'', ''HAS_REGULATORY_APPROACH'',
     ''HAS_TECHNICAL_ARCHITECTURE'', ''HAS_USER_DEMOGRAPHIC'', ''PROVIDES_TECHNOLOGY'',
     ''RELATES_TO'',
     ''SECURES'', ''L2_BRIDGES'', ''HOSTS'', ''AUDITS'', ''UPGRADES'']"

definition media_relationship_types :: "string list" where
  "media_relationship_types =
    [''BORN_IN'', ''HAS_FAMILY_RELATIONSHIP'', ''RELEASED'', ''CONTAINS'', ''HEADLINED'',
     ''SUPPORTED'', ''COLLABORATED_ON'', ''FEATURING'', ''WROTE'', ''PRODUCED'',
     ''SIGNED_WITH'', ''RELEASED_BY'', ''RECEIVED'', ''ACTED_IN'', ''VOICED_IN'',
     ''APPEARED_IN'', ''JUDGED'', ''HOSTED'', ''PERFORMED_AT'', ''INFLUENCED_BY'',
     ''HAS_GENRE'', ''ENDORSED'', ''LAUNCHED'', ''FOUNDED'', ''SUPPORTS'',
     ''AMBASSADOR_FOR'', ''HELD_IN'', ''MUSIC_VIDEO_FOR'', ''HAS_LYRICS'',
     ''IS_ANNOTATED_BY'', ''REFERENCES_SOURCE'', ''PROVIDED_BY_USER'',
     ''EXPLORES_THEME'', ''IDENTIFIES_THEME'', ''EMPLOYS_DEVICE'', ''IDENTIFIES_DEVICE'']"

definition DOMAIN_RELATIONSHIP_TYPES :: "string list js_object" where
  "DOMAIN_RELATIONSHIP_TYPES =
    [(''code'', code_relationship_types), (''mind'', mind_relationship_types),
     (''crypto'', crypto_relationship_types), (''media'', media_relationship_types)]"

section \<open>Schema retrieval: from the query records to the schema output\<close>

text \<open>
  One entry of \<open>nodeTypes\<close> or \<open>relationshipTypes\<close>: \<open>{type, count}\<close>. The count is
  the number the driver's \<open>toNumber()\<close> hands back.
\<close>

record type_count =
  type :: string
  count :: int

text \<open>
  The record loop that builds \<open>nodeProperties\<close> (and \<open>relationshipProperties\<close>) from
  the rows \<open>(label, properties)\<close> of the property query. \<open>!nodeProperties[label]\<close> is
  false for an own key (an array is truthy) and also for a label that names a member of
  \<open>Object.prototype\<close>; there the spread of the inherited member throws a
  \<open>TypeError\<close> (it is not iterable). The wording of that message is the engine's;
  nothing below depends on it.
\<close>

fun collect_properties ::
  "(string \<times> string list) list \<Rightarrow> string list js_object \<Rightarrow> js_error + string list js_object"
where
  "collect_properties [] obj = Inr obj"
| "collect_properties ((label, properties) # records) obj =
     (case map_of obj label of
        Some cur \<Rightarrow>
          collect_properties records (AList.update label (new_Set (cur @ properties)) obj)
      | None \<Rightarrow>
          if label \<in> set Object_prototype_keys
          then Inl (TypeError ''nodeProperties[label] is not iterable'')
          else collect_properties records
                 (AList.update label (new_Set ([] @ properties)) (AList.update label [] obj)))"

text \<open>The \<open>domain\<close> argument: \<open>domain?: string | string[]\<close>.\<close>

datatype domain_arg = Undefined | Domain string | Domains "string list"

text \<open>\<open>if (domain)\<close>: \<open>undefined\<close> and the empty string are falsy, every array is truthy.\<close>

fun truthy :: "domain_arg \<Rightarrow> bool" where
  "truthy Undefined = False"
| "truthy (Domain d) = (d \<noteq> [])"
| "truthy (Domains ds) = True"

text \<open>\<open>Array.isArray(domain) ? domain : [domain]\<close>, reached for a truthy argument only.\<close>

fun domains_of :: "domain_arg \<Rightarrow> string list" where
  "domains_of (Domains ds) = ds"
| "domains_of (Domain d) = [d]"
| "domains_of Undefined = []"

definition validDomains :: "string list \<Rightarrow> string list" where
  "validDomains ds = filter (\<lambda>d. d \<in> set [''code'', ''mind'', ''crypto'', ''media'']) ds"

text \<open>
  The loop over \<open>validDomains\<close> that concatenates the taxonomy lists of a table. Reading a
  key the table does not have gives \<open>undefined\<close>, whose spread throws.
\<close>

fun gather :: "string list js_object \<Rightarrow> string list \<Rightarrow> string list \<Rightarrow> js_error + string list" where
  "gather table [] acc = Inr acc"
| "gather table (d # ds) acc =
     (case map_of table d of
        None \<Rightarrow> Inl (TypeError ''undefined is not iterable'')
      | Some names \<Rightarrow> gather table ds (acc @ names))"

text \<open>
  \<open>completeNodeTypes\<close> / \<open>completeRelationshipTypes\<close>: the live entries whose type is in
  the domain list, then one pushed entry of count 0 for every listed name that no live
  entry has.
\<close>

definition completeTypes :: "type_count list \<Rightarrow> string list \<Rightarrow> type_count list" where
  "completeTypes live allDomainTypes =
     filter (\<lambda>nt. type nt \<in> set allDomainTypes) live @
     map (\<lambda>n. \<lparr>type = n, count = 0\<rparr>)
       (filter (\<lambda>n. n \<notin> set (map type live)) allDomainTypes)"

text \<open>
  \<open>filteredNodeProperties\<close> / \<open>filteredRelationshipProperties\<close>: for every listed name,
  the live property list when there is one, the empty array otherwise.
\<close>

definition filteredProperties :: "string list js_object \<Rightarrow> string list \<Rightarrow> string list js_object" where
  "filteredProperties properties allDomainTypes =
     fold (\<lambda>n filtered.
            case map_of properties n of
              Some ps \<Rightarrow> AList.update n ps filtered
            | None \<Rightarrow> AList.update n [] filtered)
          allDomainTypes []"

record schema_output =
  domains :: "string list option"
  nodeTypes :: "type_count list"
  nodeProperties :: "string list js_object"
  relationshipTypes :: "type_count list"
  relationshipProperties :: "string list js_object"

text \<open>
  The part of \<open>getNeo4jSchema\<close> after the record loops: the object that is handed to
  \<open>JSON.stringify\<close>. An absent \<open>domains\<close> key is \<open>None\<close>.
\<close>

definition schemaOutput ::
  "type_count list \<Rightarrow> string list js_object \<Rightarrow> type_count list \<Rightarrow> string list js_object \<Rightarrow>
   domain_arg \<Rightarrow> js_error + schema_output"
where
  "schemaOutput nts nps rts rps domain =
     (if truthy domain then
        (let valid = validDomains (domains_of domain) in
         if length valid = 0 then
           Inr \<lparr>domains = None, nodeTypes = nts, nodeProperties = nps,
                relationshipTypes = rts, relationshipProperties = rps\<rparr>
         else
           (case gather DOMAIN_NODE_TYPES valid [] of
              Inl e \<Rightarrow> Inl e
            | Inr ns \<Rightarrow>
               (case gather DOMAIN_RELATIONSHIP_TYPES valid [] of
                  Inl e \<Rightarrow> Inl e
                | Inr rs \<Rightarrow>
                   (let allDomainNodeTypes = new_Set ns;
                        allDomainRelationshipTypes = new_Set rs
                    in Inr \<lparr>domains = Some valid,
                            nodeTypes = completeTypes nts allDomainNodeTypes,
                            nodeProperties = filteredProperties nps allDomainNodeTypes,
                            relationshipTypes = completeTypes rts allDomainRelationshipTypes,
                            relationshipProperties =
                              filteredProperties rps allDomainRelationshipTypes\<rparr>))))
      else
        Inr \<lparr>domains = None, nodeTypes = nts, nodeProperties = nps,
             relationshipTypes = rts, relationshipProperties = rps\<rparr>)"

text \<open>
  The pure part of \<open>getNeo4jSchema\<close> between the four queries and \<open>JSON.stringify\<close>:
  \<open>nodeTypes\<close>, the \<open>nodeProperties\<close> loop, \<open>relationshipTypes\<close>, the
  \<open>relationshipProperties\<close> loop, then the domain filter. A row of a count query is
  \<open>(label, count)\<close>, a row of a property query is \<open>(label, properties)\<close>.
\<close>

definition schemaOutput_of_records ::
  "(string \<times> int) list \<Rightarrow> (string \<times> string list) list \<Rightarrow>
   (string \<times> int) list \<Rightarrow> (string \<times> string list) list \<Rightarrow>
   domain_arg \<Rightarrow> js_error + schema_output"
where
  "schemaOutput_of_records nodeTypeRecords nodePropertyRecords
       relationshipTypeRecords relationshipPropertyRecords domain =
     (let nts = map (\<lambda>(label, n). \<lparr>type = label, count = n\<rparr>) nodeTypeRecords in
      case collect_properties nodePropertyRecords [] of
        Inl e \<Rightarrow> Inl e
      | Inr nps \<Rightarrow>
         (let rts = map (\<lambda>(relType, n). \<lparr>type = relType, count = n\<rparr>) relationshipTypeRecords in
          case collect_properties relationshipPropertyRecords [] of
            Inl e \<Rightarrow> Inl e
          | Inr rps \<Rightarrow> schemaOutput nts nps rts rps domain))"

section \<open>Query parameters\<close>

text \<open>
  A JavaScript number is a finite value, \<open>NaN\<close> or an infinity. \<open>Integer n\<close> stands
  for the driver integer \<open>neo4j.int(n)\<close> built from the number \<open>n\<close>; the driver's own
  conversion is outside this repository.
\<close>

datatype js_number = Finite real | NaN | PosInfinity | NegInfinity

fun Math_floor :: "js_number \<Rightarrow> js_number" where
  "Math_floor (Finite x) = Finite (of_int \<lfloor>x\<rfloor>)"
| "Math_floor n = n"

datatype js_value =
    Number js_number
  | Integer js_number
  | String string
  | Boolean bool
  | Null
  | Array "js_value list"
  | Object "(string \<times> js_value) list"

text \<open>
  \<open>processed[key] = v\<close> on an object literal. The key \<open>__proto__\<close> reaches the
  inherited setter and creates no own property.
\<close>

definition assign :: "string \<Rightarrow> 'v \<Rightarrow> 'v js_object \<Rightarrow> 'v js_object" where
  "assign key v obj = (if key = ''__proto__'' then obj else AList.update key v obj)"

text \<open>
  \<open>processParams\<close>: the loop over \<open>Object.entries(params)\<close> with the object
  \<open>processed\<close> as accumulator, and the branch taken for one value. The parameters
  arrive as JSON, so they hold numbers, strings, booleans, null, arrays and objects;
  the last equation is the \<open>else\<close> branch for strings, booleans and null.
\<close>

fun processParams :: "(string \<times> js_value) list \<Rightarrow> js_value js_object"
  and process_entries :: "(string \<times> js_value) list \<Rightarrow> js_value js_object \<Rightarrow> js_value js_object"
  and process_value :: "js_value \<Rightarrow> js_value"
where
  "processParams params = process_entries params []"
| "process_entries [] processed = processed"
| "process_entries ((key, v) # rest) processed =
     process_entries rest (assign key (process_value v) processed)"
| "process_value (Number n) = Integer (Math_floor n)"
| "process_value (Object entries) = Object (processParams entries)"
| "process_value (Array items) =
     Array (map (\<lambda>item. case item of Number n \<Rightarrow> Integer (Math_floor n) | _ \<Rightarrow> item) items)"
| "process_value v = v"

section \<open>The driver handle, sessions and the exported operations\<close>

record env =
  NEO4J_URI :: "string option"
  NEO4J_USER :: "string option"
  NEO4J_PASSWORD :: "string option"

text \<open>\<open>!x\<close> for an environment variable: unset or the empty string.\<close>

fun unset :: "string option \<Rightarrow> bool" where
  "unset None = True"
| "unset (Some s) = (s = [])"

text \<open>
  The state the module works on: \<open>process.env\<close>, the module variable \<open>driver\<close> (a
  handle is the number of its creation), how many handles \<open>neo4j.driver\<close> has made, the
  handles whose \<open>close()\<close> has completed, the sessions opened and closed so far, and
  the handles on which \<open>session()\<close> or \<open>verifyConnectivity()\<close> was called, the
  latest first. What is written with \<open>console.error\<close> is not part of the state.
\<close>

record world =
  process_env :: env
  driver :: "nat option"
  created :: nat
  closed :: "nat list"
  sessions_opened :: nat
  sessions_closed :: nat
  used :: "nat list"

text \<open>An operation returns or throws, and leaves a world behind in both cases.\<close>

type_synonym 'a outcome = "(js_error + 'a) \<times> world"

definition getDriver :: "world \<Rightarrow> nat outcome" where
  "getDriver w =
     (if unset (NEO4J_URI (process_env w)) \<or> unset (NEO4J_USER (process_env w)) \<or>
         unset (NEO4J_PASSWORD (process_env w))
      then (Inl (Error ''Missing Neo4j connection details in environment variables (NEO4J_URI, NEO4J_USER, NEO4J_PASSWORD)''), w)
      else
        (case driver w of
           None \<Rightarrow> (Inr (created w), w\<lparr>driver := Some (created w), created := Suc (created w)\<rparr>)
         | Some d \<Rightarrow> (Inr d, w)))"

text \<open>
  \<open>closeDriver\<close>. The first argument is what \<open>driver.close()\<close> rejects with, if it
  does; then the assignment \<open>driver = null\<close> is not reached.
\<close>

definition closeDriver :: "js_error option \<Rightarrow> world \<Rightarrow> unit outcome" where
  "closeDriver close_rejects w =
     (case driver w of
        None \<Rightarrow> (Inr (), w)
      | Some d \<Rightarrow>
         (case close_rejects of
            Some e \<Rightarrow> (Inl e, w)
          | None \<Rightarrow> (Inr (), w\<lparr>driver := None, closed := d # closed w\<rparr>)))"

text \<open>
  \<open>checkNeo4jConnectivity\<close>. The first argument is what \<open>verifyConnectivity()\<close>
  rejects with, if it does; the call is made on the handle \<open>getDriver()\<close> returned.
\<close>

definition checkNeo4jConnectivity :: "js_error option \<Rightarrow> world \<Rightarrow> bool outcome" where
  "checkNeo4jConnectivity verify_rejects w =
     (case getDriver w of
        (Inl e, w1) \<Rightarrow> (Inl e, w1)
      | (Inr currentDriver, w1) \<Rightarrow>
         (let w2 = w1\<lparr>used := currentDriver # used w1\<rparr> in
          case verify_rejects of
            None \<Rightarrow> (Inr True, w2)
          | Some e \<Rightarrow> (Inl (Error (''Neo4j connection failed: '' @ message e)), w2)))"

text \<open>\<open>currentDriver.session()\<close> and \<open>session.close()\<close>.\<close>

definition open_session :: "nat \<Rightarrow> world \<Rightarrow> world" where
  "open_session currentDriver w =
     w\<lparr>sessions_opened := Suc (sessions_opened w), used := currentDriver # used w\<rparr>"

definition close_session :: "world \<Rightarrow> world" where
  "close_session w = w\<lparr>sessions_closed := Suc (sessions_closed w)\<rparr>"

text \<open>
  \<open>runCypherQuery\<close>. The store is the function \<open>run\<close>: for a query and the processed
  parameters, the JSON text of the records, or the error thrown on the way to it.
  \<open>getDriver()\<close> is called before the \<open>try\<close>; the \<open>finally\<close> closes the session on
  both paths.
\<close>

definition runCypherQuery ::
  "(string \<Rightarrow> js_value js_object \<Rightarrow> js_error + string) \<Rightarrow> string \<Rightarrow> js_value js_object \<Rightarrow>
   world \<Rightarrow> string outcome"
where
  "runCypherQuery run query params w =
     (case getDriver w of
        (Inl e, w1) \<Rightarrow> (Inl e, w1)
      | (Inr currentDriver, w1) \<Rightarrow>
         (let processedParams = processParams params;
              w2 = open_session currentDriver w1
          in case run query processedParams of
               Inr records \<Rightarrow> (Inr records, close_session w2)
             | Inl e \<Rightarrow>
                 (Inl (Error (''Failed to execute Cypher query: '' @ message e)),
                  close_session w2)))"

text \<open>The answers of the store to the four schema queries, in the order they are run.\<close>

record introspection =
  nodeTypesResult :: "js_error + (string \<times> int) list"
  nodePropertiesResult :: "js_error + (string \<times> string list) list"
  relationshipTypesResult :: "js_error + (string \<times> int) list"
  relationshipPropertiesResult :: "js_error + (string \<times> string list) list"

definition getNeo4jSchema :: "introspection \<Rightarrow> domain_arg \<Rightarrow> world \<Rightarrow> schema_output outcome" where
  "getNeo4jSchema store domain w =
     (case getDriver w of
        (Inl e, w1) \<Rightarrow> (Inl e, w1)
      | (Inr currentDriver, w1) \<Rightarrow>
         (let w2 = open_session currentDriver w1;
              body =
                (case nodeTypesResult store of Inl e \<Rightarrow> Inl e | Inr ntr \<Rightarrow>
                 (case nodePropertiesResult store of Inl e \<Rightarrow> Inl e | Inr npr \<Rightarrow>
                  (case relationshipTypesResult store of Inl e \<Rightarrow> Inl e | Inr rtr \<Rightarrow>
                   (case relationshipPropertiesResult store of Inl e \<Rightarrow> Inl e | Inr rpr \<Rightarrow>
                      schemaOutput_of_records ntr npr rtr rpr domain))))
          in (case body of
                Inr out \<Rightarrow> (Inr out, close_session w2)
              | Inl e \<Rightarrow>
                  (Inl (Error (''Failed to fetch Neo4j schema: '' @ message e)),
                   close_session w2))))"

section \<open>The two tools of the server\<close>

text \<open>
  What a tool handler returns: \<open>{content: [{type: "text", text}], isError}\<close>. The text
  is either the JSON text of a value or a message; a handler that succeeds sets no
  \<open>isError\<close>, which reads as false.
\<close>

datatype 'a tool_text = Json 'a | Message string

record 'a tool_result =
  content :: "'a tool_text"
  isError :: bool

definition get_graph_schema ::
  "introspection \<Rightarrow> domain_arg \<Rightarrow> world \<Rightarrow> schema_output tool_result \<times> world"
where
  "get_graph_schema store domain w =
     (case getNeo4jSchema store domain w of
        (Inr schemaJson, w') \<Rightarrow> (\<lparr>content = Json schemaJson, isError = False\<rparr>, w')
      | (Inl e, w') \<Rightarrow>
          (\<lparr>content = Message (''Error getting schema: '' @ message e), isError = True\<rparr>, w'))"

definition run_cypher_query ::
  "(string \<Rightarrow> js_value js_object \<Rightarrow> js_error + string) \<Rightarrow> string \<Rightarrow>
   js_value js_object option \<Rightarrow> world \<Rightarrow> string tool_result \<times> world"
where
  "run_cypher_query run query params w =
     (let queryParams = (case params of None \<Rightarrow> [] | Some p \<Rightarrow> p) in
      case runCypherQuery run query queryParams w of
        (Inr resultJson, w') \<Rightarrow> (\<lparr>content = Json resultJson, isError = False\<rparr>, w')
      | (Inl e, w') \<Rightarrow>
          (\<lparr>content = Message (''Error running query: '' @ message e), isError = True\<rparr>, w'))"

section \<open>Notions used to state the properties\<close>

text \<open>
  A list with its duplicates removed and the order of first occurrence kept: the head
  stays, and is removed from what the rest contributes.
\<close>

primrec first_occurrences :: "'a list \<Rightarrow> 'a list" where
  "first_occurrences [] = []"
| "first_occurrences (x # xs) = x # filter (\<lambda>y. y \<noteq> x) (first_occurrences xs)"

text \<open>
  The names a taxonomy table declares for a domain identifier (none for an identifier
  that is not a key of the table).
\<close>

definition declared :: "string list js_object \<Rightarrow> string \<Rightarrow> string list" where
  "declared table d = (case map_of table d of Some names \<Rightarrow> names | None \<Rightarrow> [])"

text \<open>
  The normalisation of a parameter value as the specification words it: every number is
  floored, also inside arrays and objects at any depth, and every other value is left
  as it is. It is what \<^const>\<open>processParams\<close> is compared with.
\<close>

primrec deep_floor :: "js_value \<Rightarrow> js_value" where
  "deep_floor (Number n) = Integer (Math_floor n)"
| "deep_floor (Integer n) = Integer n"
| "deep_floor (String s) = String s"
| "deep_floor (Boolean b) = Boolean b"
| "deep_floor Null = Null"
| "deep_floor (Array items) = Array (map deep_floor items)"
| "deep_floor (Object entries) = Object (map (map_prod id deep_floor) entries)"

text \<open>The test of \<open>getDriver\<close> on the three connection variables.\<close>

definition config_missing :: "world \<Rightarrow> bool" where
  "config_missing w \<longleftrightarrow>
     unset (NEO4J_URI (process_env w)) \<or> unset (NEO4J_USER (process_env w)) \<or>
     unset (NEO4J_PASSWORD (process_env w))"

text \<open>
  The state of the handle variable: every closed handle is one that was created, and the
  variable is either null or the handle created last, which has not been closed.
\<close>

definition handle_ok :: "world \<Rightarrow> bool" where
  "handle_ok w \<longleftrightarrow>
     (\<forall>c \<in> set (closed w). c < created w) \<and>
     (case driver w of None \<Rightarrow> True | Some d \<Rightarrow> Suc d = created w \<and> d \<notin> set (closed w))"

text \<open>The module right after loading: no handle, nothing created, no session.\<close>

definition startup :: "env \<Rightarrow> world" where
  "startup e = \<lparr>process_env = e, driver = None, created = 0, closed = [],
                sessions_opened = 0, sessions_closed = 0, used = []\<rparr>"

text \<open>
  The exported operations with what the store answers to them, and the world each
  leaves behind, whether it returns or throws.
\<close>

datatype operation =
    CloseDriver "js_error option"
  | CheckNeo4jConnectivity "js_error option"
  | RunCypherQuery "string \<Rightarrow> js_value js_object \<Rightarrow> js_error + string" string "js_value js_object"
  | GetNeo4jSchema introspection domain_arg

text \<open>The operations that work on the store; \<open>closeDriver\<close> is the one that does not.\<close>

fun uses_store :: "operation \<Rightarrow> bool" where
  "uses_store (CloseDriver close_rejects) = False"
| "uses_store (CheckNeo4jConnectivity verify_rejects) = True"
| "uses_store (RunCypherQuery run query params) = True"
| "uses_store (GetNeo4jSchema store domain) = True"

fun perform :: "operation \<Rightarrow> world \<Rightarrow> world" where
  "perform (CloseDriver close_rejects) w = snd (closeDriver close_rejects w)"
| "perform (CheckNeo4jConnectivity verify_rejects) w = snd (checkNeo4jConnectivity verify_rejects w)"
| "perform (RunCypherQuery run query params) w = snd (runCypherQuery run query params w)"
| "perform (GetNeo4jSchema store domain) w = snd (getNeo4jSchema store domain w)"

section \<open>Sets, objects and the taxonomy lookups\<close>


lemma set_first_occurrences: "set (first_occurrences xs) = set xs"
  by (induction xs) auto

lemma distinct_first_occurrences: "distinct (first_occurrences xs)"
  by (induction xs) auto

lemma fold_Set_add:
  "fold (\<lambda>x s. if x \<in> set s then s else s @ [x]) xs acc =
     acc @ filter (\<lambda>y. y \<notin> set acc) (first_occurrences xs)"
proof (induction xs arbitrary: acc)
  case Nil
  then show ?case by simp
next
  case (Cons x xs)
  show ?case
  proof (cases "x \<in> set acc")
    case True
    have "filter (\<lambda>y. y \<notin> set acc) (filter (\<lambda>y. y \<noteq> x) (first_occurrences xs)) =
          filter (\<lambda>y. y \<notin> set acc) (first_occurrences xs)"
      using True by (auto intro: filter_cong)
    with True Cons.IH [of acc] show ?thesis by simp
  next
    case False
    have "filter (\<lambda>y. y \<notin> set (acc @ [x])) (first_occurrences xs) =
          filter (\<lambda>y. y \<notin> set acc) (filter (\<lambda>y. y \<noteq> x) (first_occurrences xs))"
      by (auto intro: filter_cong)
    with False Cons.IH [of "acc @ [x]"] show ?thesis by simp
  qed
qed

lemma new_Set_first_occurrences: "new_Set xs = first_occurrences xs"
  by (simp add: new_Set_def fold_Set_add)

lemma set_new_Set: "set (new_Set xs) = set xs"
  by (simp add: new_Set_first_occurrences set_first_occurrences)

lemma distinct_new_Set: "distinct (new_Set xs)"
  by (simp add: new_Set_first_occurrences distinct_first_occurrences)


lemma gather_declared:
  "\<forall>d \<in> set ds. map_of table d \<noteq> None \<Longrightarrow>
   gather table ds acc = Inr (acc @ concat (map (declared table) ds))"
  by (induction ds arbitrary: acc) (auto simp: declared_def)

lemma valid_node_key: "d \<in> set (validDomains ds) \<Longrightarrow> map_of DOMAIN_NODE_TYPES d \<noteq> None"
  by (auto simp: validDomains_def DOMAIN_NODE_TYPES_def)

lemma valid_relationship_key:
  "d \<in> set (validDomains ds) \<Longrightarrow> map_of DOMAIN_RELATIONSHIP_TYPES d \<noteq> None"
  by (auto simp: validDomains_def DOMAIN_RELATIONSHIP_TYPES_def)

lemma completeTypes_names: "type ` set (completeTypes live names) = set names"
proof
  show "type ` set (completeTypes live names) \<subseteq> set names"
    by (auto simp: completeTypes_def)
  show "set names \<subseteq> type ` set (completeTypes live names)"
  proof
    fix n assume n: "n \<in> set names"
    show "n \<in> type ` set (completeTypes live names)"
    proof (cases "n \<in> type ` set live")
      case True
      then obtain nt where "nt \<in> set live" "type nt = n" by auto
      with n have "nt \<in> set (completeTypes live names)" by (simp add: completeTypes_def)
      with \<open>type nt = n\<close> show ?thesis by force
    next
      case False
      with n have "\<lparr>type = n, count = 0\<rparr> \<in> set (completeTypes live names)"
        by (auto simp: completeTypes_def)
      then have "type \<lparr>type = n, count = 0\<rparr> \<in> type ` set (completeTypes live names)"
        by (rule imageI)
      then show ?thesis by simp
    qed
  qed
qed

lemma filteredProperties_fold_keys:
  "fst ` set (fold (\<lambda>n filtered. case map_of properties n of
              Some ps \<Rightarrow> AList.update n ps filtered
            | None \<Rightarrow> AList.update n [] filtered) names acc) = set names \<union> fst ` set acc"
  by (induction names arbitrary: acc) (auto simp: dom_update split: option.splits)

lemma filteredProperties_keys: "fst ` set (filteredProperties properties names) = set names"
  by (simp add: filteredProperties_def filteredProperties_fold_keys)

lemma filteredProperties_fold_lookup:
  "map_of (fold (\<lambda>n filtered. case map_of properties n of
              Some ps \<Rightarrow> AList.update n ps filtered
            | None \<Rightarrow> AList.update n [] filtered) names acc) k =
   (if k \<in> set names then Some (case map_of properties k of Some ps \<Rightarrow> ps | None \<Rightarrow> [])
    else map_of acc k)"
  by (induction names arbitrary: acc) (auto simp: update_conv' split: option.splits)

lemma filteredProperties_lookup:
  "map_of (filteredProperties properties names) k =
   (if k \<in> set names then Some (case map_of properties k of Some ps \<Rightarrow> ps | None \<Rightarrow> [])
    else None)"
  by (simp add: filteredProperties_def filteredProperties_fold_lookup)


lemma declared_node [simp]:
  "declared DOMAIN_NODE_TYPES ''code'' = code_node_types"
  "declared DOMAIN_NODE_TYPES ''mind'' = mind_node_types"
  "declared DOMAIN_NODE_TYPES ''crypto'' = crypto_node_types"
  "declared DOMAIN_NODE_TYPES ''media'' = media_node_types"
  by (simp_all add: declared_def DOMAIN_NODE_TYPES_def)

lemma declared_relationship [simp]:
  "declared DOMAIN_RELATIONSHIP_TYPES ''code'' = code_relationship_types"
  "declared DOMAIN_RELATIONSHIP_TYPES ''mind'' = mind_relationship_types"
  "declared DOMAIN_RELATIONSHIP_TYPES ''crypto'' = crypto_relationship_types"
  "declared DOMAIN_RELATIONSHIP_TYPES ''media'' = media_relationship_types"
  by (simp_all add: declared_def DOMAIN_RELATIONSHIP_TYPES_def)

lemma truthy_valid: "validDomains (domains_of domain) \<noteq> [] \<Longrightarrow> truthy domain"
  by (cases domain) (auto simp: validDomains_def)

lemma schemaOutput_unscoped:
  "validDomains (domains_of domain) = [] \<Longrightarrow>
   schemaOutput nts nps rts rps domain =
     Inr \<lparr>domains = None, nodeTypes = nts, nodeProperties = nps,
          relationshipTypes = rts, relationshipProperties = rps\<rparr>"
  by (simp add: schemaOutput_def)

lemma schemaOutput_scoped:
  assumes "validDomains (domains_of domain) \<noteq> []"
  shows "schemaOutput nts nps rts rps domain =
     Inr \<lparr>domains = Some (validDomains (domains_of domain)),
          nodeTypes = completeTypes nts
            (new_Set (concat (map (declared DOMAIN_NODE_TYPES) (validDomains (domains_of domain))))),
          nodeProperties = filteredProperties nps
            (new_Set (concat (map (declared DOMAIN_NODE_TYPES) (validDomains (domains_of domain))))),
          relationshipTypes = completeTypes rts
            (new_Set (concat (map (declared DOMAIN_RELATIONSHIP_TYPES) (validDomains (domains_of domain))))),
          relationshipProperties = filteredProperties rps
            (new_Set (concat (map (declared DOMAIN_RELATIONSHIP_TYPES) (validDomains (domains_of domain)))))\<rparr>"
proof -
  let ?valid = "validDomains (domains_of domain)"
  have n: "gather DOMAIN_NODE_TYPES ?valid [] =
             Inr ([] @ concat (map (declared DOMAIN_NODE_TYPES) ?valid))"
    by (rule gather_declared) (simp add: valid_node_key)
  have r: "gather DOMAIN_RELATIONSHIP_TYPES ?valid [] =
             Inr ([] @ concat (map (declared DOMAIN_RELATIONSHIP_TYPES) ?valid))"
    by (rule gather_declared) (simp add: valid_relationship_key)
  from assms truthy_valid [OF assms] show ?thesis
    unfolding schemaOutput_def Let_def by (simp add: n r)
qed

lemma filter_eq_distinct: "distinct xs \<Longrightarrow> n \<in> set xs \<Longrightarrow> filter (\<lambda>x. x = n) xs = [n]"
  by (induction xs) (auto simp: filter_empty_conv)

lemma filter_none: "n \<notin> f ` set xs \<Longrightarrow> filter (\<lambda>x. f x = n) xs = []"
  by (auto simp: filter_empty_conv)

lemma filter_one:
  "distinct (map f xs) \<Longrightarrow> n \<in> f ` set xs \<Longrightarrow> length (filter (\<lambda>x. f x = n) xs) = 1"
proof (induction xs)
  case Nil
  then show ?case by simp
next
  case (Cons x xs)
  show ?case
  proof (cases "f x = n")
    case True
    with Cons.prems have "n \<notin> f ` set xs" by auto
    then have "filter (\<lambda>x. f x = n) xs = []" by (rule filter_none)
    with True show ?thesis by simp
  next
    case False
    with Cons show ?thesis by auto
  qed
qed

lemma completeTypes_absent:
  assumes "distinct names" "n \<in> set names" "n \<notin> type ` set live"
  shows "filter (\<lambda>tc. type tc = n) (completeTypes live names) = [\<lparr>type = n, count = 0\<rparr>]"
proof -
  have a: "filter (\<lambda>tc. type tc = n) (filter (\<lambda>nt. type nt \<in> set names) live) = []"
    using assms(3) by (auto simp: filter_empty_conv)
  have "filter (\<lambda>x. x = n) (filter (\<lambda>n. n \<notin> set (map type live)) names) = [n]"
    using assms by (intro filter_eq_distinct) auto
  then have b: "filter (\<lambda>tc. type tc = n)
          (map (\<lambda>n. \<lparr>type = n, count = 0\<rparr>) (filter (\<lambda>n. n \<notin> set (map type live)) names)) =
        [\<lparr>type = n, count = 0\<rparr>]"
    by (simp add: filter_map comp_def)
  show ?thesis unfolding completeTypes_def filter_append a b by simp
qed

lemma completeTypes_once:
  assumes "distinct names" "n \<in> set names" "distinct (map type live)"
  shows "length (filter (\<lambda>tc. type tc = n) (completeTypes live names)) = 1"
proof (cases "n \<in> type ` set live")
  case False
  with assms show ?thesis by (simp add: completeTypes_absent)
next
  case True
  have "filter (\<lambda>tc. type tc = n) (filter (\<lambda>nt. type nt \<in> set names) live) =
        filter (\<lambda>tc. type tc = n) live"
    using assms(2) by (auto intro: filter_cong)
  then have a: "length (filter (\<lambda>tc. type tc = n) (filter (\<lambda>nt. type nt \<in> set names) live)) = 1"
    using filter_one [OF assms(3) True] by simp
  have b: "filter (\<lambda>tc. type tc = n)
          (map (\<lambda>n. \<lparr>type = n, count = 0\<rparr>) (filter (\<lambda>n. n \<notin> set (map type live)) names)) = []"
    using True by (auto simp: filter_empty_conv)
  show ?thesis unfolding completeTypes_def filter_append using a b by simp
qed

lemma completeTypes_distinct:
  assumes "distinct names" "distinct (map type live)"
  shows "distinct (map type (completeTypes live names))"
proof -
  have "distinct (map type (filter (\<lambda>nt. type nt \<in> set names) live))"
    using assms(2) by (rule distinct_map_filter)
  moreover have "map type (map (\<lambda>n. \<lparr>type = n, count = 0\<rparr>) (filter (\<lambda>n. n \<notin> set (map type live)) names)) =
      filter (\<lambda>n. n \<notin> set (map type live)) names"
    by (simp add: comp_def)
  ultimately show ?thesis
    using assms(1) unfolding completeTypes_def by auto
qed

lemma update_fresh: "k \<notin> fst ` set al \<Longrightarrow> AList.update k v al = al @ [(k, v)]"
  by (induction al) auto

lemma filteredProperties_fold_map:
  "distinct names \<Longrightarrow> set names \<inter> fst ` set acc = {} \<Longrightarrow>
   fold (\<lambda>n filtered. case map_of properties n of
              Some ps \<Rightarrow> AList.update n ps filtered
            | None \<Rightarrow> AList.update n [] filtered) names acc =
   acc @ map (\<lambda>n. (n, case map_of properties n of Some ps \<Rightarrow> ps | None \<Rightarrow> [])) names"
proof (induction names arbitrary: acc)
  case Nil
  then show ?case by simp
next
  case (Cons n names)
  let ?v = "case map_of properties n of Some ps \<Rightarrow> ps | None \<Rightarrow> []"
  from Cons.prems have fresh: "n \<notin> fst ` set acc" by auto
  have step: "(case map_of properties n of
              Some ps \<Rightarrow> AList.update n ps acc
            | None \<Rightarrow> AList.update n [] acc) = acc @ [(n, ?v)]"
    using fresh by (simp add: update_fresh split: option.splits)
  have "set names \<inter> fst ` set (acc @ [(n, ?v)]) = {}"
    using Cons.prems by auto
  with Cons.IH [of "acc @ [(n, ?v)]"] Cons.prems step show ?case by simp
qed

lemma filteredProperties_map:
  "distinct names \<Longrightarrow>
   filteredProperties properties names =
     map (\<lambda>n. (n, case map_of properties n of Some ps \<Rightarrow> ps | None \<Rightarrow> [])) names"
  using filteredProperties_fold_map [of names "[]" properties]
  by (simp add: filteredProperties_def)

lemma filteredProperties_key_list:
  "distinct names \<Longrightarrow> map fst (filteredProperties properties names) = names"
  by (simp add: filteredProperties_map comp_def)

lemma distinct_code_node_types: "distinct code_node_types"
  by (simp add: code_node_types_def)

lemma distinct_code_relationship_types: "distinct code_relationship_types"
  by (simp add: code_relationship_types_def)

text \<open>
  No name of the taxonomy is a member of \<open>Object.prototype\<close>: reading
  \<open>nodeProperties[nodeType]\<close> for a taxonomy name finds an own key or nothing, which is
  what \<^const>\<open>filteredProperties\<close> relies on.
\<close>

lemma node_names_own:
  "\<forall>k \<in> set Object_prototype_keys.
     k \<notin> set code_node_types \<and> k \<notin> set mind_node_types \<and>
     k \<notin> set crypto_node_types \<and> k \<notin> set media_node_types"
  by (simp add: Object_prototype_keys_def code_node_types_def mind_node_types_def
        crypto_node_types_def media_node_types_def)

lemma relationship_names_own:
  "\<forall>k \<in> set Object_prototype_keys.
     k \<notin> set code_relationship_types \<and> k \<notin> set mind_relationship_types \<and>
     k \<notin> set crypto_relationship_types \<and> k \<notin> set media_relationship_types"
  by (simp add: Object_prototype_keys_def code_relationship_types_def mind_relationship_types_def
        crypto_relationship_types_def media_relationship_types_def)

lemma declared_cases:
  "n \<in> set (declared DOMAIN_NODE_TYPES d) \<Longrightarrow>
   n \<in> set code_node_types \<or> n \<in> set mind_node_types \<or>
   n \<in> set crypto_node_types \<or> n \<in> set media_node_types"
  by (auto simp: declared_def DOMAIN_NODE_TYPES_def split: if_splits)

lemma declared_relationship_cases:
  "n \<in> set (declared DOMAIN_RELATIONSHIP_TYPES d) \<Longrightarrow>
   n \<in> set code_relationship_types \<or> n \<in> set mind_relationship_types \<or>
   n \<in> set crypto_relationship_types \<or> n \<in> set media_relationship_types"
  by (auto simp: declared_def DOMAIN_RELATIONSHIP_TYPES_def split: if_splits)

lemma taxonomy_names_own:
  "n \<in> set (declared DOMAIN_NODE_TYPES d) \<union> set (declared DOMAIN_RELATIONSHIP_TYPES d) \<Longrightarrow>
   n \<notin> set Object_prototype_keys"
  using node_names_own relationship_names_own declared_cases [of n d]
    declared_relationship_cases [of n d]
  by blast

text \<open>
  When the record loop completes, the keys of the property index are the keys it started
  with and the labels of the rows.
\<close>

lemma collect_properties_keys:
  "collect_properties records obj = Inr out \<Longrightarrow>
   fst ` set out = fst ` set obj \<union> fst ` set records"
proof (induction records arbitrary: obj)
  case Nil
  then show ?case by simp
next
  case (Cons r records)
  obtain label properties where r: "r = (label, properties)" by (cases r)
  show ?case
  proof (cases "map_of obj label")
    case None
    with Cons.prems r have np: "label \<notin> set Object_prototype_keys"
      and rec: "collect_properties records
                 (AList.update label (new_Set ([] @ properties)) (AList.update label [] obj)) = Inr out"
      by (auto split: if_splits)
    from Cons.IH [OF rec] r show ?thesis by (auto simp: dom_update)
  next
    case (Some cur)
    with Cons.prems r have
      rec: "collect_properties records (AList.update label (new_Set (cur @ properties)) obj) = Inr out"
      by simp
    from Some have "label \<in> fst ` set obj" by (force dest: map_of_SomeD)
    with Cons.IH [OF rec] r show ?thesis by (auto simp: dom_update)
  qed
qed

section \<open>Properties of the schema output\<close>

text \<open>
  The call always produces an output. When at least one requested domain is valid, the
  names of the node entries are exactly the keys of the node property index, and the
  names of the relationship entries are exactly the keys of the relationship property
  index: the domain filter gives every listed name a key, with the empty array when the
  property query returned no row for it. When no valid domain is requested the output
  carries the names and keys of the live lists and indexes.
\<close>

lemma names_and_keys:
  "\<exists>out. schemaOutput nts nps rts rps domain = Inr out \<and>
     (if validDomains (domains_of domain) = []
      then type ` set (nodeTypes out) = type ` set nts \<and>
           fst ` set (nodeProperties out) = fst ` set nps \<and>
           type ` set (relationshipTypes out) = type ` set rts \<and>
           fst ` set (relationshipProperties out) = fst ` set rps
      else type ` set (nodeTypes out) = fst ` set (nodeProperties out) \<and>
           type ` set (relationshipTypes out) = fst ` set (relationshipProperties out))"
proof (cases "validDomains (domains_of domain) = []")
  case True
  then show ?thesis by (simp add: schemaOutput_unscoped)
next
  case False
  then show ?thesis
    by (simp add: schemaOutput_scoped completeTypes_names filteredProperties_keys)
qed

text \<open>
  Claim C1 fails on the code for an output without a domain. A store with one node
  labelled \<open>Person\<close> that has no property answers the count query with one row and the
  property query with none (\<open>UNWIND keys\<close> yields no row for an empty key list), and
  the output has a node entry \<open>Person\<close> with no key in the property index, where the
  domain filter would have given it the empty array.
\<close>

theorem orphan_in_unscoped_output:
  "schemaOutput_of_records [(''Person'', 1)] [] [] [] Undefined =
     Inr \<lparr>domains = None, nodeTypes = [\<lparr>type = ''Person'', count = 1\<rparr>], nodeProperties = [],
          relationshipTypes = [], relationshipProperties = []\<rparr> \<and>
   type ` set (nodeTypes \<lparr>domains = None, nodeTypes = [\<lparr>type = ''Person'', count = 1\<rparr>],
          nodeProperties = [], relationshipTypes = [], relationshipProperties = []\<rparr>) \<noteq>
   fst ` set (nodeProperties \<lparr>domains = None, nodeTypes = [\<lparr>type = ''Person'', count = 1\<rparr>],
          nodeProperties = [], relationshipTypes = [], relationshipProperties = []\<rparr>)"
  by (simp add: schemaOutput_of_records_def schemaOutput_def)

text \<open>
  Claim C2. For a request with two different valid domains \<open>a\<close> and \<open>b\<close>, over live
  lists that name each type once (the count queries group by label and by relationship
  type): the keys of the property indexes are the concatenated taxonomy lists of the
  valid requested domains with duplicates removed in order of first occurrence, the
  entry names are the same names, and every name the taxonomies of \<open>a\<close> and \<open>b\<close> share
  has exactly one entry and exactly one key, for node types and relationship types alike.
\<close>

theorem union_of_domains:
  assumes "a \<in> set (validDomains (domains_of domain))"
    and "b \<in> set (validDomains (domains_of domain))"
    and "a \<noteq> b"
    and "distinct (map type nts)" and "distinct (map type rts)"
  shows "\<exists>out. schemaOutput nts nps rts rps domain = Inr out \<and>
     map fst (nodeProperties out) =
       first_occurrences (concat (map (declared DOMAIN_NODE_TYPES) (validDomains (domains_of domain)))) \<and>
     map fst (relationshipProperties out) =
       first_occurrences
         (concat (map (declared DOMAIN_RELATIONSHIP_TYPES) (validDomains (domains_of domain)))) \<and>
     type ` set (nodeTypes out) =
       set (concat (map (declared DOMAIN_NODE_TYPES) (validDomains (domains_of domain)))) \<and>
     type ` set (relationshipTypes out) =
       set (concat (map (declared DOMAIN_RELATIONSHIP_TYPES) (validDomains (domains_of domain)))) \<and>
     (\<forall>n \<in> set (declared DOMAIN_NODE_TYPES a) \<inter> set (declared DOMAIN_NODE_TYPES b).
        length (filter (\<lambda>tc. type tc = n) (nodeTypes out)) = 1 \<and>
        length (filter (\<lambda>p. fst p = n) (nodeProperties out)) = 1) \<and>
     (\<forall>r \<in> set (declared DOMAIN_RELATIONSHIP_TYPES a) \<inter> set (declared DOMAIN_RELATIONSHIP_TYPES b).
        length (filter (\<lambda>tc. type tc = r) (relationshipTypes out)) = 1 \<and>
        length (filter (\<lambda>p. fst p = r) (relationshipProperties out)) = 1)"
proof -
  let ?valid = "validDomains (domains_of domain)"
  let ?ns = "new_Set (concat (map (declared DOMAIN_NODE_TYPES) ?valid))"
  let ?rs = "new_Set (concat (map (declared DOMAIN_RELATIONSHIP_TYPES) ?valid))"
  from assms(1) have ne: "?valid \<noteq> []" by auto
  have dn: "distinct ?ns" and dr: "distinct ?rs" by (rule distinct_new_Set)+
  have kn: "map fst (filteredProperties nps ?ns) = ?ns"
    and kr: "map fst (filteredProperties rps ?rs) = ?rs"
    using dn dr by (simp_all add: filteredProperties_key_list)
  have nodes: "length (filter (\<lambda>tc. type tc = n) (completeTypes nts ?ns)) = 1 \<and>
               length (filter (\<lambda>p. fst p = n) (filteredProperties nps ?ns)) = 1"
    if "n \<in> set (declared DOMAIN_NODE_TYPES a)" for n
  proof -
    from that assms(1) have n: "n \<in> set ?ns" by (auto simp: set_new_Set)
    have "length (filter (\<lambda>p. fst p = n) (filteredProperties nps ?ns)) = 1"
      by (rule filter_one) (simp_all add: kn dn filteredProperties_keys n)
    moreover have "length (filter (\<lambda>tc. type tc = n) (completeTypes nts ?ns)) = 1"
      using dn n assms(4) by (rule completeTypes_once)
    ultimately show ?thesis by simp
  qed
  have rels: "length (filter (\<lambda>tc. type tc = r) (completeTypes rts ?rs)) = 1 \<and>
              length (filter (\<lambda>p. fst p = r) (filteredProperties rps ?rs)) = 1"
    if "r \<in> set (declared DOMAIN_RELATIONSHIP_TYPES a)" for r
  proof -
    from that assms(1) have r: "r \<in> set ?rs" by (auto simp: set_new_Set)
    have "length (filter (\<lambda>p. fst p = r) (filteredProperties rps ?rs)) = 1"
      by (rule filter_one) (simp_all add: kr dr filteredProperties_keys r)
    moreover have "length (filter (\<lambda>tc. type tc = r) (completeTypes rts ?rs)) = 1"
      using dr r assms(5) by (rule completeTypes_once)
    ultimately show ?thesis by simp
  qed
  let ?out = "\<lparr>domains = Some ?valid, nodeTypes = completeTypes nts ?ns,
      nodeProperties = filteredProperties nps ?ns, relationshipTypes = completeTypes rts ?rs,
      relationshipProperties = filteredProperties rps ?rs\<rparr>"
  have "schemaOutput nts nps rts rps domain = Inr ?out"
    by (rule schemaOutput_scoped [OF ne])
  moreover have "map fst (nodeProperties ?out) =
      first_occurrences (concat (map (declared DOMAIN_NODE_TYPES) ?valid))"
    using kn by (simp add: new_Set_first_occurrences)
  moreover have "map fst (relationshipProperties ?out) =
      first_occurrences (concat (map (declared DOMAIN_RELATIONSHIP_TYPES) ?valid))"
    using kr by (simp add: new_Set_first_occurrences)
  moreover have "type ` set (nodeTypes ?out) = set (concat (map (declared DOMAIN_NODE_TYPES) ?valid))"
    unfolding schema_output.simps by (simp only: completeTypes_names set_new_Set)
  moreover have "type ` set (relationshipTypes ?out) =
      set (concat (map (declared DOMAIN_RELATIONSHIP_TYPES) ?valid))"
    unfolding schema_output.simps by (simp only: completeTypes_names set_new_Set)
  moreover have "\<forall>n \<in> set (declared DOMAIN_NODE_TYPES a) \<inter> set (declared DOMAIN_NODE_TYPES b).
        length (filter (\<lambda>tc. type tc = n) (nodeTypes ?out)) = 1 \<and>
        length (filter (\<lambda>p. fst p = n) (nodeProperties ?out)) = 1"
    unfolding schema_output.simps using nodes by blast
  moreover have "\<forall>r \<in> set (declared DOMAIN_RELATIONSHIP_TYPES a) \<inter>
          set (declared DOMAIN_RELATIONSHIP_TYPES b).
        length (filter (\<lambda>tc. type tc = r) (relationshipTypes ?out)) = 1 \<and>
        length (filter (\<lambda>p. fst p = r) (relationshipProperties ?out)) = 1"
    unfolding schema_output.simps using rels by blast
  ultimately show ?thesis by blast
qed

text \<open>
  The domains \<open>crypto\<close> and \<open>media\<close> share the node type \<open>Event\<close> and the
  relationship type \<open>SUPPORTS\<close>.
\<close>

theorem union_of_domains_witness:
  "\<exists>out. schemaOutput [\<lparr>type = ''Event'', count = 3\<rparr>] [] [] [] (Domains [''crypto'', ''media'']) = Inr out \<and>
     length (filter (\<lambda>tc. type tc = ''Event'') (nodeTypes out)) = 1 \<and>
     length (filter (\<lambda>p. fst p = ''Event'') (nodeProperties out)) = 1 \<and>
     length (filter (\<lambda>tc. type tc = ''SUPPORTS'') (relationshipTypes out)) = 1 \<and>
     length (filter (\<lambda>p. fst p = ''SUPPORTS'') (relationshipProperties out)) = 1"
proof -
  let ?d = "Domains [''crypto'', ''media'']"
  have a: "''crypto'' \<in> set (validDomains (domains_of ?d))"
    and b: "''media'' \<in> set (validDomains (domains_of ?d))"
    by (simp_all add: validDomains_def)
  have ab: "''crypto'' \<noteq> ''media''" by simp
  have dn: "distinct (map type [\<lparr>type = ''Event'', count = 3\<rparr>])"
    and dr: "distinct (map type ([] :: type_count list))" by simp_all
  have n: "''Event'' \<in> set (declared DOMAIN_NODE_TYPES ''crypto'') \<inter>
                       set (declared DOMAIN_NODE_TYPES ''media'')"
    by (simp add: crypto_node_types_def media_node_types_def)
  have r: "''SUPPORTS'' \<in> set (declared DOMAIN_RELATIONSHIP_TYPES ''crypto'') \<inter>
                          set (declared DOMAIN_RELATIONSHIP_TYPES ''media'')"
    by (simp add: crypto_relationship_types_def media_relationship_types_def)
  from union_of_domains [OF a b ab dn dr, of "[]" "[]"] n r show ?thesis by blast
qed

text \<open>
  Claim C3. For a request with a valid domain \<open>d\<close>, every node type and relationship
  type the taxonomy declares for \<open>d\<close> is named by an entry and is a key of the property
  index; a name no live entry has gets the single entry of count 0, and a name the live
  property index lacks gets the empty property list.
\<close>

theorem zero_fill:
  assumes "d \<in> set (validDomains (domains_of domain))"
  shows "\<exists>out. schemaOutput nts nps rts rps domain = Inr out \<and>
     (\<forall>n \<in> set (declared DOMAIN_NODE_TYPES d).
        n \<in> type ` set (nodeTypes out) \<and> n \<in> fst ` set (nodeProperties out) \<and>
        (n \<notin> type ` set nts \<longrightarrow>
           filter (\<lambda>tc. type tc = n) (nodeTypes out) = [\<lparr>type = n, count = 0\<rparr>]) \<and>
        (map_of nps n = None \<longrightarrow> map_of (nodeProperties out) n = Some [])) \<and>
     (\<forall>r \<in> set (declared DOMAIN_RELATIONSHIP_TYPES d).
        r \<in> type ` set (relationshipTypes out) \<and> r \<in> fst ` set (relationshipProperties out) \<and>
        (r \<notin> type ` set rts \<longrightarrow>
           filter (\<lambda>tc. type tc = r) (relationshipTypes out) = [\<lparr>type = r, count = 0\<rparr>]) \<and>
        (map_of rps r = None \<longrightarrow> map_of (relationshipProperties out) r = Some []))"
proof -
  let ?valid = "validDomains (domains_of domain)"
  let ?ns = "new_Set (concat (map (declared DOMAIN_NODE_TYPES) ?valid))"
  let ?rs = "new_Set (concat (map (declared DOMAIN_RELATIONSHIP_TYPES) ?valid))"
  from assms have ne: "?valid \<noteq> []" by auto
  have dn: "distinct ?ns" and dr: "distinct ?rs" by (rule distinct_new_Set)+
  have nodes: "n \<in> type ` set (completeTypes nts ?ns) \<and> n \<in> fst ` set (filteredProperties nps ?ns) \<and>
        (n \<notin> type ` set nts \<longrightarrow>
           filter (\<lambda>tc. type tc = n) (completeTypes nts ?ns) = [\<lparr>type = n, count = 0\<rparr>]) \<and>
        (map_of nps n = None \<longrightarrow> map_of (filteredProperties nps ?ns) n = Some [])"
    if "n \<in> set (declared DOMAIN_NODE_TYPES d)" for n
  proof -
    from that assms have n: "n \<in> set ?ns" by (auto simp: set_new_Set)
    then show ?thesis
      using completeTypes_absent [OF dn n, of nts]
      by (simp add: completeTypes_names filteredProperties_keys filteredProperties_lookup
            del: set_concat)
  qed
  have rels: "r \<in> type ` set (completeTypes rts ?rs) \<and> r \<in> fst ` set (filteredProperties rps ?rs) \<and>
        (r \<notin> type ` set rts \<longrightarrow>
           filter (\<lambda>tc. type tc = r) (completeTypes rts ?rs) = [\<lparr>type = r, count = 0\<rparr>]) \<and>
        (map_of rps r = None \<longrightarrow> map_of (filteredProperties rps ?rs) r = Some [])"
    if "r \<in> set (declared DOMAIN_RELATIONSHIP_TYPES d)" for r
  proof -
    from that assms have r: "r \<in> set ?rs" by (auto simp: set_new_Set)
    then show ?thesis
      using completeTypes_absent [OF dr r, of rts]
      by (simp add: completeTypes_names filteredProperties_keys filteredProperties_lookup
            del: set_concat)
  qed
  let ?out = "\<lparr>domains = Some ?valid, nodeTypes = completeTypes nts ?ns,
      nodeProperties = filteredProperties nps ?ns, relationshipTypes = completeTypes rts ?rs,
      relationshipProperties = filteredProperties rps ?rs\<rparr>"
  have "schemaOutput nts nps rts rps domain = Inr ?out"
    by (rule schemaOutput_scoped [OF ne])
  moreover have "\<forall>n \<in> set (declared DOMAIN_NODE_TYPES d).
        n \<in> type ` set (nodeTypes ?out) \<and> n \<in> fst ` set (nodeProperties ?out) \<and>
        (n \<notin> type ` set nts \<longrightarrow>
           filter (\<lambda>tc. type tc = n) (nodeTypes ?out) = [\<lparr>type = n, count = 0\<rparr>]) \<and>
        (map_of nps n = None \<longrightarrow> map_of (nodeProperties ?out) n = Some [])"
    unfolding schema_output.simps using nodes by blast
  moreover have "\<forall>r \<in> set (declared DOMAIN_RELATIONSHIP_TYPES d).
        r \<in> type ` set (relationshipTypes ?out) \<and> r \<in> fst ` set (relationshipProperties ?out) \<and>
        (r \<notin> type ` set rts \<longrightarrow>
           filter (\<lambda>tc. type tc = r) (relationshipTypes ?out) = [\<lparr>type = r, count = 0\<rparr>]) \<and>
        (map_of rps r = None \<longrightarrow> map_of (relationshipProperties ?out) r = Some [])"
    unfolding schema_output.simps using rels by blast
  ultimately show ?thesis by blast
qed

text \<open>Removing duplicates changes nothing in a list without duplicates.\<close>

lemma first_occurrences_distinct: "distinct xs \<Longrightarrow> first_occurrences xs = xs"
  by (induction xs) (auto intro: filter_True)

text \<open>
  With an empty store and the domain \<open>code\<close>, the output is the code taxonomy itself,
  every name with count 0 and no property.
\<close>

lemma schemaOutput_empty_code:
  "schemaOutput [] [] [] [] (Domain ''code'') =
     Inr \<lparr>domains = Some [''code''],
          nodeTypes = map (\<lambda>n. \<lparr>type = n, count = 0\<rparr>) code_node_types,
          nodeProperties = map (\<lambda>n. (n, [])) code_node_types,
          relationshipTypes = map (\<lambda>n. \<lparr>type = n, count = 0\<rparr>) code_relationship_types,
          relationshipProperties = map (\<lambda>n. (n, [])) code_relationship_types\<rparr>"
proof -
  have v: "validDomains (domains_of (Domain ''code'')) = [''code'']"
    by (simp add: validDomains_def)
  then have ne: "validDomains (domains_of (Domain ''code'')) \<noteq> []" by simp
  have n: "new_Set code_node_types = code_node_types"
    and r: "new_Set code_relationship_types = code_relationship_types"
    by (simp_all add: new_Set_first_occurrences first_occurrences_distinct
          distinct_code_node_types distinct_code_relationship_types)
  show ?thesis
    unfolding schemaOutput_scoped [OF ne] v
    by (simp add: n r completeTypes_def filteredProperties_map
          distinct_code_node_types distinct_code_relationship_types)
qed

text \<open>The node type \<open>File\<close> and the relationship type \<open>CALLS\<close> over an empty store.\<close>

theorem zero_fill_witness:
  "\<exists>out. schemaOutput [] [] [] [] (Domain ''code'') = Inr out \<and>
     filter (\<lambda>tc. type tc = ''File'') (nodeTypes out) = [\<lparr>type = ''File'', count = 0\<rparr>] \<and>
     map_of (nodeProperties out) ''File'' = Some [] \<and>
     filter (\<lambda>tc. type tc = ''CALLS'') (relationshipTypes out) = [\<lparr>type = ''CALLS'', count = 0\<rparr>] \<and>
     map_of (relationshipProperties out) ''CALLS'' = Some []"
proof -
  have d: "''code'' \<in> set (validDomains (domains_of (Domain ''code'')))"
    by (simp add: validDomains_def)
  have n: "''File'' \<in> set (declared DOMAIN_NODE_TYPES ''code'')"
    by (simp add: code_node_types_def)
  have r: "''CALLS'' \<in> set (declared DOMAIN_RELATIONSHIP_TYPES ''code'')"
    by (simp add: code_relationship_types_def)
  from zero_fill [OF d, of "[]" "[]" "[]" "[]"] obtain out where
    out: "schemaOutput [] [] [] [] (Domain ''code'') = Inr out"
    and nodes: "\<forall>n \<in> set (declared DOMAIN_NODE_TYPES ''code'').
        n \<in> type ` set (nodeTypes out) \<and> n \<in> fst ` set (nodeProperties out) \<and>
        (n \<notin> type ` set ([] :: type_count list) \<longrightarrow>
           filter (\<lambda>tc. type tc = n) (nodeTypes out) = [\<lparr>type = n, count = 0\<rparr>]) \<and>
        (map_of ([] :: string list js_object) n = None \<longrightarrow> map_of (nodeProperties out) n = Some [])"
    and rels: "\<forall>r \<in> set (declared DOMAIN_RELATIONSHIP_TYPES ''code'').
        r \<in> type ` set (relationshipTypes out) \<and> r \<in> fst ` set (relationshipProperties out) \<and>
        (r \<notin> type ` set ([] :: type_count list) \<longrightarrow>
           filter (\<lambda>tc. type tc = r) (relationshipTypes out) = [\<lparr>type = r, count = 0\<rparr>]) \<and>
        (map_of ([] :: string list js_object) r = None \<longrightarrow> map_of (relationshipProperties out) r = Some [])"
    by blast
  from nodes n have "filter (\<lambda>tc. type tc = ''File'') (nodeTypes out) = [\<lparr>type = ''File'', count = 0\<rparr>] \<and>
     map_of (nodeProperties out) ''File'' = Some []" by simp
  moreover from rels r have "filter (\<lambda>tc. type tc = ''CALLS'') (relationshipTypes out) = [\<lparr>type = ''CALLS'', count = 0\<rparr>] \<and>
     map_of (relationshipProperties out) ''CALLS'' = Some []" by simp
  ultimately show ?thesis using out by blast
qed

text \<open>Validation is a filter, and the schema output is never an error.\<close>

lemma validDomains_idem: "validDomains (validDomains ds) = validDomains ds"
  by (simp add: validDomains_def)

lemma schemaOutput_total: "\<exists>out. schemaOutput nts nps rts rps domain = Inr out"
  by (cases "validDomains (domains_of domain) = []")
     (simp_all add: schemaOutput_unscoped schemaOutput_scoped)

text \<open>
  Claim C4. No requested domain list makes the call fail; the identifiers kept are
  exactly the requested ones among \<open>code\<close>, \<open>mind\<close>, \<open>crypto\<close> and \<open>media\<close>, and
  the dropped ones leave no trace in the result; and when no valid identifier remains
  the result is the one of the call without a domain.
\<close>

theorem lenient_fallback:
  "(\<exists>out. schemaOutput nts nps rts rps domain = Inr out) \<and>
   set (validDomains ds) = set ds \<inter> {''code'', ''mind'', ''crypto'', ''media''} \<and>
   schemaOutput nts nps rts rps (Domains ds) = schemaOutput nts nps rts rps (Domains (validDomains ds)) \<and>
   (validDomains (domains_of domain) = [] \<longrightarrow>
      schemaOutput nts nps rts rps domain = schemaOutput nts nps rts rps Undefined)"
proof (intro conjI impI)
  show "\<exists>out. schemaOutput nts nps rts rps domain = Inr out"
    by (rule schemaOutput_total)
  show "set (validDomains ds) = set ds \<inter> {''code'', ''mind'', ''crypto'', ''media''}"
    by (auto simp: validDomains_def)
  show "schemaOutput nts nps rts rps (Domains ds) =
        schemaOutput nts nps rts rps (Domains (validDomains ds))"
  proof (cases "validDomains ds = []")
    case True
    have "schemaOutput nts nps rts rps (Domains []) =
          Inr \<lparr>domains = None, nodeTypes = nts, nodeProperties = nps,
               relationshipTypes = rts, relationshipProperties = rps\<rparr>"
      by (rule schemaOutput_unscoped) (simp add: validDomains_def)
    with True show ?thesis by (simp add: schemaOutput_unscoped)
  next
    case False
    then show ?thesis by (simp add: schemaOutput_scoped validDomains_idem)
  qed
  show "schemaOutput nts nps rts rps domain = schemaOutput nts nps rts rps Undefined"
    if "validDomains (domains_of domain) = []"
    using that by (simp add: schemaOutput_unscoped validDomains_def)
qed

text \<open>The request \<open>["not-a-real-domain"]\<close> over a store with one node type.\<close>

theorem lenient_fallback_witness:
  "schemaOutput [\<lparr>type = ''Person'', count = 4\<rparr>] [(''Person'', [''name''])] [] []
     (Domains [''not-a-real-domain'']) =
   schemaOutput [\<lparr>type = ''Person'', count = 4\<rparr>] [(''Person'', [''name''])] [] [] Undefined \<and>
   schemaOutput [\<lparr>type = ''Person'', count = 4\<rparr>] [(''Person'', [''name''])] [] []
     (Domains [''not-a-real-domain'']) =
   Inr \<lparr>domains = None, nodeTypes = [\<lparr>type = ''Person'', count = 4\<rparr>],
        nodeProperties = [(''Person'', [''name''])],
        relationshipTypes = [], relationshipProperties = []\<rparr>"
proof -
  have "validDomains (domains_of (Domains [''not-a-real-domain''])) = []"
    by (simp add: validDomains_def)
  with lenient_fallback [of "[\<lparr>type = ''Person'', count = 4\<rparr>]" "[(''Person'', [''name''])]"
      "[]" "[]" "Domains [''not-a-real-domain'']" "[]"]
  show ?thesis by (simp add: schemaOutput_def)
qed

text \<open>
  Claim C5. When the domain argument is absent, or nothing of it is left after
  validation, the output is the live entry lists and property indexes themselves, in
  their order, and has no \<open>domains\<close> field.
\<close>

theorem no_scope_identity:
  assumes "domain = Undefined \<or> validDomains (domains_of domain) = []"
  shows "schemaOutput nts nps rts rps domain =
     Inr \<lparr>domains = None, nodeTypes = nts, nodeProperties = nps,
          relationshipTypes = rts, relationshipProperties = rps\<rparr>"
proof -
  from assms have "validDomains (domains_of domain) = []"
    by (auto simp: validDomains_def)
  then show ?thesis by (rule schemaOutput_unscoped)
qed

text \<open>A call without a domain; the live lists are not in sorted order and stay so.\<close>

theorem no_scope_identity_witness:
  "schemaOutput [\<lparr>type = ''B'', count = 1\<rparr>, \<lparr>type = ''A'', count = 7\<rparr>] [(''B'', [''y'', ''x''])]
      [\<lparr>type = ''R'', count = 2\<rparr>] [] Undefined =
     Inr \<lparr>domains = None, nodeTypes = [\<lparr>type = ''B'', count = 1\<rparr>, \<lparr>type = ''A'', count = 7\<rparr>],
          nodeProperties = [(''B'', [''y'', ''x''])],
          relationshipTypes = [\<lparr>type = ''R'', count = 2\<rparr>], relationshipProperties = []\<rparr>"
  using no_scope_identity [of Undefined] by simp

text \<open>
  Claim C6. For a request with at least one valid domain, the \<open>domains\<close> field is the
  requested list filtered by validity: the order and the repetitions of the request are
  kept. The keys of both property indexes are nevertheless without repetition, and so
  are the entry names whenever the live lists name each type once.
\<close>

theorem domain_echo:
  assumes "validDomains (domains_of domain) \<noteq> []"
  shows "\<exists>out. schemaOutput nts nps rts rps domain = Inr out \<and>
     domains out =
       Some (filter (\<lambda>d. d \<in> {''code'', ''mind'', ''crypto'', ''media''}) (domains_of domain)) \<and>
     distinct (map fst (nodeProperties out)) \<and>
     distinct (map fst (relationshipProperties out)) \<and>
     (distinct (map type nts) \<longrightarrow> distinct (map type (nodeTypes out))) \<and>
     (distinct (map type rts) \<longrightarrow> distinct (map type (relationshipTypes out)))"
  unfolding schemaOutput_scoped [OF assms]
  by (simp add: filteredProperties_key_list distinct_new_Set completeTypes_distinct)
     (simp add: validDomains_def)

text \<open>The request \<open>["mind", "mind"]\<close>.\<close>

theorem domain_echo_witness:
  "\<exists>out. schemaOutput [] [] [] [] (Domains [''mind'', ''mind'']) = Inr out \<and>
     domains out = Some [''mind'', ''mind''] \<and>
     distinct (map fst (nodeProperties out)) \<and>
     distinct (map fst (relationshipProperties out)) \<and>
     distinct (map type (nodeTypes out)) \<and>
     distinct (map type (relationshipTypes out))"
proof -
  have "validDomains (domains_of (Domains [''mind'', ''mind''])) \<noteq> []"
    by (simp add: validDomains_def)
  from domain_echo [OF this, of "[]" "[]" "[]" "[]"] show ?thesis by simp
qed

section \<open>Properties of the parameter processing\<close>

text \<open>
  The example of the specification: a number at the top level and a number in a nested
  object are both floored.
\<close>

lemma processParams_example:
  "processParams [(''limit'', Number (Finite 5.9)), (''nested'', Object [(''x'', Number (Finite 3.2))])] =
     [(''limit'', Integer (Finite 5)), (''nested'', Object [(''x'', Integer (Finite 3))])]"
  by (simp add: assign_def)

text \<open>Numbers that are items of an array are floored, other items are kept.\<close>

lemma processParams_flat_array:
  "processParams [(''ids'', Array [Number (Finite 1.5), String ''a''])] =
     [(''ids'', Array [Integer (Finite 1), String ''a''])]"
  by (simp add: assign_def)

text \<open>
  Claim C7 fails on the code. An array item that is itself an object (or an array) is
  passed through as it is, so the number \<open>3.2\<close> inside \<open>{rows: [{x: 3.2}]}\<close> is
  submitted unconverted, where the normalisation at any depth gives the integer 3.
\<close>

theorem processParams_skips_objects_in_arrays:
  "processParams [(''rows'', Array [Object [(''x'', Number (Finite 3.2))] ])] =
     [(''rows'', Array [Object [(''x'', Number (Finite 3.2))] ])] \<and>
   map (map_prod id deep_floor) [(''rows'', Array [Object [(''x'', Number (Finite 3.2))] ])] =
     [(''rows'', Array [Object [(''x'', Integer (Finite 3))] ])]"
  by (simp add: assign_def)


section \<open>Properties of the handle and of the tools\<close>

text \<open>
  Claim C8. \<open>closeDriver\<close> on a world without a handle returns without an error and
  changes nothing; and once a call of \<open>closeDriver\<close> has returned, the handle variable
  is null and a second call returns without an error and changes nothing, whatever
  \<open>close()\<close> would have done.
\<close>

theorem teardown_idempotent:
  "(driver w = None \<longrightarrow> closeDriver c w = (Inr (), w)) \<and>
   (fst (closeDriver c w) = Inr () \<longrightarrow>
      driver (snd (closeDriver c w)) = None \<and>
      closeDriver c' (snd (closeDriver c w)) = (Inr (), snd (closeDriver c w)))"
  by (auto simp: closeDriver_def split: option.splits)

text \<open>Two calls in succession on a world with a live handle.\<close>

theorem teardown_idempotent_witness:
  "closeDriver None
     \<lparr>process_env = \<lparr>NEO4J_URI = Some ''bolt://db'', NEO4J_USER = Some ''neo4j'',
                       NEO4J_PASSWORD = Some ''pw''\<rparr>,
      driver = Some 0, created = 1, closed = [], sessions_opened = 0, sessions_closed = 0, used = []\<rparr> =
   (Inr (),
     \<lparr>process_env = \<lparr>NEO4J_URI = Some ''bolt://db'', NEO4J_USER = Some ''neo4j'',
                       NEO4J_PASSWORD = Some ''pw''\<rparr>,
      driver = None, created = 1, closed = [0], sessions_opened = 0, sessions_closed = 0, used = []\<rparr>) \<and>
   closeDriver (Some (Error ''closing failed''))
     \<lparr>process_env = \<lparr>NEO4J_URI = Some ''bolt://db'', NEO4J_USER = Some ''neo4j'',
                       NEO4J_PASSWORD = Some ''pw''\<rparr>,
      driver = None, created = 1, closed = [0], sessions_opened = 0, sessions_closed = 0, used = []\<rparr> =
   (Inr (),
     \<lparr>process_env = \<lparr>NEO4J_URI = Some ''bolt://db'', NEO4J_USER = Some ''neo4j'',
                       NEO4J_PASSWORD = Some ''pw''\<rparr>,
      driver = None, created = 1, closed = [0], sessions_opened = 0, sessions_closed = 0, used = []\<rparr>)"
proof -
  let ?e = "\<lparr>NEO4J_URI = Some ''bolt://db'', NEO4J_USER = Some ''neo4j'',
             NEO4J_PASSWORD = Some ''pw''\<rparr>"
  let ?w = "\<lparr>process_env = ?e,
      driver = Some 0, created = 1, closed = [], sessions_opened = 0, sessions_closed = 0, used = []\<rparr>"
  have first: "closeDriver None ?w =
      (Inr (), \<lparr>process_env = ?e,
         driver = None, created = 1, closed = [0], sessions_opened = 0, sessions_closed = 0, used = []\<rparr>)"
    by (simp add: closeDriver_def)
  then have "fst (closeDriver None ?w) = Inr ()" by simp
  with teardown_idempotent [of ?w None "Some (Error ''closing failed'')"] first
  show ?thesis by simp
qed

text \<open>\<open>getDriver\<close> opens no session, and each operation closes the session it opens.\<close>

lemma getDriver_sessions:
  "sessions_opened (snd (getDriver w)) = sessions_opened w"
  "sessions_closed (snd (getDriver w)) = sessions_closed w"
  by (simp_all add: getDriver_def split: option.splits)

lemma getDriver_cases:
  obtains e where "getDriver w = (Inl e, w)" "config_missing w"
  | d w1 where "getDriver w = (Inr d, w1)" "\<not> config_missing w"
      "sessions_opened w1 = sessions_opened w" "sessions_closed w1 = sessions_closed w"
  by (cases "config_missing w"; cases "driver w")
     (auto simp: getDriver_def config_missing_def)

lemma runCypherQuery_sessions:
  "sessions_opened (snd (runCypherQuery run query params w)) + sessions_closed w =
   sessions_closed (snd (runCypherQuery run query params w)) + sessions_opened w"
  by (cases w rule: getDriver_cases)
     (auto simp: runCypherQuery_def Let_def open_session_def close_session_def split: sum.splits)

lemma getNeo4jSchema_sessions:
  "sessions_opened (snd (getNeo4jSchema store domain w)) + sessions_closed w =
   sessions_closed (snd (getNeo4jSchema store domain w)) + sessions_opened w"
  by (cases w rule: getDriver_cases)
     (auto simp: getNeo4jSchema_def Let_def open_session_def close_session_def split: sum.splits)

lemma run_cypher_query_world:
  "snd (run_cypher_query run query params w) =
   snd (runCypherQuery run query (case params of None \<Rightarrow> [] | Some p \<Rightarrow> p) w)"
  by (simp add: run_cypher_query_def Let_def split: prod.splits sum.splits)

lemma get_graph_schema_world:
  "snd (get_graph_schema store domain w) = snd (getNeo4jSchema store domain w)"
  by (simp add: get_graph_schema_def split: prod.splits sum.splits)

text \<open>
  Claim C9. Whatever \<open>runCypherQuery\<close> or \<open>getNeo4jSchema\<close> throws, the tool handler
  returns a result whose text is a message built from the error's message and whose
  \<open>isError\<close> flag is set; the flag is set exactly when the operation threw. Both tools
  close as many sessions as they open. In particular, when the configuration is present
  and the store rejects the query, the answer is the failure payload with the store's
  message, one session was opened and that session was closed.
\<close>

theorem tools_report_failures:
  "(runCypherQuery run query (case params of None \<Rightarrow> [] | Some p \<Rightarrow> p) w = (Inl e, w') \<longrightarrow>
      run_cypher_query run query params w =
        (\<lparr>content = Message (''Error running query: '' @ message e), isError = True\<rparr>, w')) \<and>
   (getNeo4jSchema store domain w = (Inl e, w') \<longrightarrow>
      get_graph_schema store domain w =
        (\<lparr>content = Message (''Error getting schema: '' @ message e), isError = True\<rparr>, w')) \<and>
   (isError (fst (run_cypher_query run query params w)) \<longleftrightarrow>
      (\<exists>x. fst (runCypherQuery run query (case params of None \<Rightarrow> [] | Some p \<Rightarrow> p) w) = Inl x)) \<and>
   (isError (fst (get_graph_schema store domain w)) \<longleftrightarrow>
      (\<exists>x. fst (getNeo4jSchema store domain w) = Inl x)) \<and>
   sessions_opened (snd (run_cypher_query run query params w)) + sessions_closed w =
     sessions_closed (snd (run_cypher_query run query params w)) + sessions_opened w \<and>
   sessions_opened (snd (get_graph_schema store domain w)) + sessions_closed w =
     sessions_closed (snd (get_graph_schema store domain w)) + sessions_opened w \<and>
   (\<not> config_missing w \<and>
    run query (processParams (case params of None \<Rightarrow> [] | Some p \<Rightarrow> p)) = Inl x \<longrightarrow>
      fst (run_cypher_query run query params w) =
        \<lparr>content = Message (''Error running query: Failed to execute Cypher query: '' @ message x),
         isError = True\<rparr> \<and>
      sessions_opened (snd (run_cypher_query run query params w)) = Suc (sessions_opened w) \<and>
      sessions_closed (snd (run_cypher_query run query params w)) = Suc (sessions_closed w))"
proof (intro conjI impI)
  show "run_cypher_query run query params w =
        (\<lparr>content = Message (''Error running query: '' @ message e), isError = True\<rparr>, w')"
    if "runCypherQuery run query (case params of None \<Rightarrow> [] | Some p \<Rightarrow> p) w = (Inl e, w')"
    using that by (simp add: run_cypher_query_def)
  show "get_graph_schema store domain w =
        (\<lparr>content = Message (''Error getting schema: '' @ message e), isError = True\<rparr>, w')"
    if "getNeo4jSchema store domain w = (Inl e, w')"
    using that by (simp add: get_graph_schema_def)
  show "isError (fst (run_cypher_query run query params w)) \<longleftrightarrow>
      (\<exists>x. fst (runCypherQuery run query (case params of None \<Rightarrow> [] | Some p \<Rightarrow> p) w) = Inl x)"
    by (auto simp: run_cypher_query_def Let_def split: prod.splits sum.splits)
  show "isError (fst (get_graph_schema store domain w)) \<longleftrightarrow>
      (\<exists>x. fst (getNeo4jSchema store domain w) = Inl x)"
    by (auto simp: get_graph_schema_def split: prod.splits sum.splits)
  show "sessions_opened (snd (run_cypher_query run query params w)) + sessions_closed w =
     sessions_closed (snd (run_cypher_query run query params w)) + sessions_opened w"
    unfolding run_cypher_query_world by (rule runCypherQuery_sessions)
  show "sessions_opened (snd (get_graph_schema store domain w)) + sessions_closed w =
     sessions_closed (snd (get_graph_schema store domain w)) + sessions_opened w"
    unfolding get_graph_schema_world by (rule getNeo4jSchema_sessions)
next
  assume a: "\<not> config_missing w \<and>
    run query (processParams (case params of None \<Rightarrow> [] | Some p \<Rightarrow> p)) = Inl x"
  then obtain d w1 where g: "getDriver w = (Inr d, w1)"
    and s: "sessions_opened w1 = sessions_opened w" "sessions_closed w1 = sessions_closed w"
    by (cases w rule: getDriver_cases) auto
  from a g s show "fst (run_cypher_query run query params w) =
        \<lparr>content = Message (''Error running query: Failed to execute Cypher query: '' @ message x),
         isError = True\<rparr>"
    and "sessions_opened (snd (run_cypher_query run query params w)) = Suc (sessions_opened w)"
    and "sessions_closed (snd (run_cypher_query run query params w)) = Suc (sessions_closed w)"
    by (simp_all add: run_cypher_query_def runCypherQuery_def Let_def open_session_def
          close_session_def)
qed


text \<open>A query the store rejects, run on a freshly started module.\<close>

theorem tools_report_failures_witness:
  "run_cypher_query (\<lambda>q p. Inl (Error ''Invalid input'')) ''RETURN'' None
     \<lparr>process_env = \<lparr>NEO4J_URI = Some ''bolt://db'', NEO4J_USER = Some ''neo4j'',
                       NEO4J_PASSWORD = Some ''pw''\<rparr>,
      driver = None, created = 0, closed = [], sessions_opened = 0, sessions_closed = 0, used = []\<rparr> =
   (\<lparr>content = Message ''Error running query: Failed to execute Cypher query: Invalid input'',
     isError = True\<rparr>,
    \<lparr>process_env = \<lparr>NEO4J_URI = Some ''bolt://db'', NEO4J_USER = Some ''neo4j'',
                       NEO4J_PASSWORD = Some ''pw''\<rparr>,
      driver = Some 0, created = 1, closed = [], sessions_opened = 1, sessions_closed = 1, used = [0]\<rparr>)"
proof -
  let ?run = "\<lambda>(q :: string) (p :: js_value js_object). (Inl (Error ''Invalid input'') :: js_error + string)"
  let ?e = "\<lparr>NEO4J_URI = Some ''bolt://db'', NEO4J_USER = Some ''neo4j'',
             NEO4J_PASSWORD = Some ''pw''\<rparr>"
  let ?w = "\<lparr>process_env = ?e,
      driver = None, created = 0, closed = [], sessions_opened = 0, sessions_closed = 0, used = []\<rparr>"
  let ?w' = "\<lparr>process_env = ?e,
      driver = Some 0, created = 1, closed = [], sessions_opened = 1, sessions_closed = 1, used = [0]\<rparr>"
  have core: "runCypherQuery ?run ''RETURN'' (case None of None \<Rightarrow> [] | Some p \<Rightarrow> p) ?w =
      (Inl (Error ''Failed to execute Cypher query: Invalid input''), ?w')"
    by (simp add: runCypherQuery_def getDriver_def open_session_def close_session_def)
  from tools_report_failures [where run = ?run and query = "''RETURN''" and params = None
      and w = ?w and e = "Error ''Failed to execute Cypher query: Invalid input''" and w' = ?w']
    core
  show ?thesis by simp
qed

text \<open>
  Sessions and connectivity checks do not touch the handle variable; every operation
  keeps the handle state sound.
\<close>

lemma handle_ok_sessions [simp]:
  "handle_ok (open_session h w) = handle_ok w"
  "handle_ok (close_session w) = handle_ok w"
  "handle_ok (w\<lparr>used := u\<rparr>) = handle_ok w"
  by (auto simp: handle_ok_def open_session_def close_session_def split: option.splits)

lemma driver_sessions [simp]:
  "driver (open_session h w) = driver w"
  "driver (close_session w) = driver w"
  by (simp_all add: open_session_def close_session_def)

lemma getDriver_handle_ok: "handle_ok w \<Longrightarrow> handle_ok (snd (getDriver w))"
  by (auto simp: getDriver_def handle_ok_def less_Suc_eq split: option.splits)

lemma closeDriver_handle_ok: "handle_ok w \<Longrightarrow> handle_ok (snd (closeDriver c w))"
  by (auto simp: closeDriver_def handle_ok_def split: option.splits)

lemma getDriver_reuses: "driver w = Some d \<Longrightarrow> driver (snd (getDriver w)) = Some d"
  by (simp add: getDriver_def)

lemma getDriver_live:
  "\<not> config_missing w \<Longrightarrow> driver w = Some d \<Longrightarrow> getDriver w = (Inr d, w)"
  by (simp add: getDriver_def config_missing_def)

lemma getDriver_fresh:
  "\<not> config_missing w \<Longrightarrow> driver w = None \<Longrightarrow>
   getDriver w = (Inr (created w), w\<lparr>driver := Some (created w), created := Suc (created w)\<rparr>)"
  by (simp add: getDriver_def config_missing_def)

lemma checkNeo4jConnectivity_world:
  "snd (checkNeo4jConnectivity v w) = snd (getDriver w) \<or>
   (\<exists>h. snd (checkNeo4jConnectivity v w) = (snd (getDriver w))\<lparr>used := h # used (snd (getDriver w))\<rparr>)"
  by (cases "getDriver w")
     (auto simp: checkNeo4jConnectivity_def Let_def split: sum.splits option.splits)

lemma runCypherQuery_world:
  "snd (runCypherQuery run query params w) = snd (getDriver w) \<or>
   (\<exists>h. snd (runCypherQuery run query params w) = close_session (open_session h (snd (getDriver w))))"
  by (cases "getDriver w")
     (auto simp: runCypherQuery_def Let_def split: sum.splits)

lemma getNeo4jSchema_world:
  "snd (getNeo4jSchema store domain w) = snd (getDriver w) \<or>
   (\<exists>h. snd (getNeo4jSchema store domain w) = close_session (open_session h (snd (getDriver w))))"
  by (cases "getDriver w")
     (auto simp: getNeo4jSchema_def Let_def split: sum.splits)

lemma perform_handle_ok: "handle_ok w \<Longrightarrow> handle_ok (perform op w)"
proof (cases op)
  case (CloseDriver c)
  assume "handle_ok w"
  with CloseDriver show ?thesis by (simp add: closeDriver_handle_ok)
next
  case (CheckNeo4jConnectivity v)
  assume "handle_ok w"
  then have "handle_ok (snd (getDriver w))" by (rule getDriver_handle_ok)
  with CheckNeo4jConnectivity checkNeo4jConnectivity_world [of v w] show ?thesis by auto
next
  case (RunCypherQuery run query params)
  assume "handle_ok w"
  then have "handle_ok (snd (getDriver w))" by (rule getDriver_handle_ok)
  with RunCypherQuery runCypherQuery_world [of run query params w] show ?thesis by auto
next
  case (GetNeo4jSchema store domain)
  assume "handle_ok w"
  then have "handle_ok (snd (getDriver w))" by (rule getDriver_handle_ok)
  with GetNeo4jSchema getNeo4jSchema_world [of store domain w] show ?thesis by auto
qed

lemma fold_perform_handle_ok: "handle_ok w \<Longrightarrow> handle_ok (fold perform ops w)"
  by (induction ops arbitrary: w) (simp_all add: perform_handle_ok)

lemma handle_ok_startup: "handle_ok (startup e)"
  by (simp add: handle_ok_def startup_def)

text \<open>
  An operation on the store, run with the configuration present: on a live handle it
  works on that handle and creates none; on a null variable it creates the next handle,
  stores it and works on it.
\<close>

lemma perform_on_live:
  assumes "\<not> config_missing w" "driver w = Some d" "uses_store op"
  shows "driver (perform op w) = Some d \<and> created (perform op w) = created w \<and>
         used (perform op w) = d # used w \<and> closed (perform op w) = closed w"
  using assms(3) getDriver_live [OF assms(1,2)]
  by (cases op)
     (auto simp: checkNeo4jConnectivity_def runCypherQuery_def getNeo4jSchema_def Let_def
        open_session_def close_session_def assms(2) split: sum.splits option.splits)

lemma perform_on_null:
  assumes "\<not> config_missing w" "driver w = None" "uses_store op"
  shows "driver (perform op w) = Some (created w) \<and> created (perform op w) = Suc (created w) \<and>
         used (perform op w) = created w # used w \<and> closed (perform op w) = closed w"
  using assms(3) getDriver_fresh [OF assms(1,2)]
  by (cases op)
     (auto simp: checkNeo4jConnectivity_def runCypherQuery_def getNeo4jSchema_def Let_def
        open_session_def close_session_def split: sum.splits option.splits)

text \<open>
  A \<open>closeDriver\<close> whose \<open>close()\<close> resolves returns, empties the variable and adds
  the handle it held to the closed ones; a sound state has never issued its next handle.
\<close>

lemma closeDriver_completes:
  "fst (closeDriver None w) = Inr ()"
  "driver (snd (closeDriver None w)) = None"
  "created (snd (closeDriver None w)) = created w"
  "used (snd (closeDriver None w)) = used w"
  "config_missing (snd (closeDriver None w)) = config_missing w"
  "set (closed (snd (closeDriver None w))) = set (closed w) \<union> set_option (driver w)"
  by (auto simp: closeDriver_def config_missing_def split: option.splits)

lemma handle_ok_fresh:
  "handle_ok w \<Longrightarrow> created w \<notin> set (closed w) \<and> driver w \<noteq> Some (created w)"
  by (auto simp: handle_ok_def split: option.splits)

text \<open>
  Claim C10. After any sequence of operations from startup the handle variable is null
  or the handle created last, not closed, and every operation keeps it so. \<open>getDriver\<close>
  never overwrites a live handle and returns it when the configuration is present; every
  operation on the store leaves a live handle in the variable and, with the
  configuration present, works on that handle and creates none. After a \<open>closeDriver\<close>
  that completes the variable is null, and with the configuration present every
  operation on the store that follows (\<open>checkNeo4jConnectivity\<close>, \<open>runCypherQuery\<close>,
  \<open>getNeo4jSchema\<close>) creates one new handle, stores it in the variable and works on it;
  that handle is not among the closed ones and is not the handle held before. The
  operation does not fail for the closed handle: the connectivity check returns true,
  a query the store answers returns the store's records, and a schema request whose
  four queries are answered returns the schema output.
\<close>

theorem handle_lifecycle:
  "handle_ok (fold perform ops (startup e)) \<and>
   (handle_ok w \<longrightarrow> handle_ok (perform op w) \<and> handle_ok (snd (getDriver w))) \<and>
   (driver w = Some d \<longrightarrow>
      driver (snd (getDriver w)) = Some d \<and>
      (\<not> config_missing w \<longrightarrow> getDriver w = (Inr d, w)) \<and>
      driver (perform (CheckNeo4jConnectivity v) w) = Some d \<and>
      driver (perform (RunCypherQuery run query params) w) = Some d \<and>
      driver (perform (GetNeo4jSchema store domain) w) = Some d \<and>
      (\<not> config_missing w \<and> uses_store op \<longrightarrow>
         used (perform op w) = d # used w \<and> created (perform op w) = created w)) \<and>
   (handle_ok w \<and> \<not> config_missing w \<longrightarrow>
      fst (closeDriver None w) = Inr () \<and>
      driver (snd (closeDriver None w)) = None \<and>
      (\<exists>d'. fst (getDriver (snd (closeDriver None w))) = Inr d' \<and>
            driver (snd (getDriver (snd (closeDriver None w)))) = Some d' \<and>
            d' \<notin> set (closed (snd (getDriver (snd (closeDriver None w))))) \<and>
            driver w \<noteq> Some d') \<and>
      (uses_store op \<longrightarrow>
         driver (perform op (snd (closeDriver None w))) = Some (created w) \<and>
         created (perform op (snd (closeDriver None w))) = Suc (created w) \<and>
         used (perform op (snd (closeDriver None w))) = created w # used w \<and>
         created w \<notin> set (closed (perform op (snd (closeDriver None w)))) \<and>
         driver w \<noteq> Some (created w)) \<and>
      fst (checkNeo4jConnectivity None (snd (closeDriver None w))) = Inr True \<and>
      (run query (processParams params) = Inr records \<longrightarrow>
         fst (runCypherQuery run query params (snd (closeDriver None w))) = Inr records) \<and>
      (nodeTypesResult store = Inr ntr \<and> nodePropertiesResult store = Inr npr \<and>
       relationshipTypesResult store = Inr rtr \<and> relationshipPropertiesResult store = Inr rpr \<and>
       schemaOutput_of_records ntr npr rtr rpr domain = Inr out \<longrightarrow>
         fst (getNeo4jSchema store domain (snd (closeDriver None w))) = Inr out))"
proof (intro conjI impI)
  show "handle_ok (fold perform ops (startup e))"
    by (rule fold_perform_handle_ok) (rule handle_ok_startup)
  show "handle_ok (perform op w)" if "handle_ok w"
    using that by (rule perform_handle_ok)
  show "handle_ok (snd (getDriver w))" if "handle_ok w"
    using that by (rule getDriver_handle_ok)
next
  assume d: "driver w = Some d"
  then show g: "driver (snd (getDriver w)) = Some d" by (rule getDriver_reuses)
  show "getDriver w = (Inr d, w)" if "\<not> config_missing w"
    using that d by (rule getDriver_live)
  show "driver (perform (CheckNeo4jConnectivity v) w) = Some d"
    using g checkNeo4jConnectivity_world [of v w] by auto
  show "driver (perform (RunCypherQuery run query params) w) = Some d"
    using g runCypherQuery_world [of run query params w] by auto
  show "driver (perform (GetNeo4jSchema store domain) w) = Some d"
    using g getNeo4jSchema_world [of store domain w] by auto
  assume "\<not> config_missing w \<and> uses_store op"
  then have "driver (perform op w) = Some d \<and> created (perform op w) = created w \<and>
         used (perform op w) = d # used w \<and> closed (perform op w) = closed w"
    using d by (intro perform_on_live) simp_all
  then show "used (perform op w) = d # used w" and "created (perform op w) = created w"
    by simp_all
next
  assume a: "handle_ok w \<and> \<not> config_missing w"
  let ?w1 = "snd (closeDriver None w)"
  have cfg: "\<not> config_missing ?w1" and null: "driver ?w1 = None"
    using a by (simp_all add: closeDriver_completes)
  show "fst (closeDriver None w) = Inr ()" and "driver ?w1 = None"
    by (simp_all add: closeDriver_completes)
  show "\<exists>d'. fst (getDriver ?w1) = Inr d' \<and>
            driver (snd (getDriver ?w1)) = Some d' \<and>
            d' \<notin> set (closed (snd (getDriver ?w1))) \<and>
            driver w \<noteq> Some d'"
    using a
    by (cases "driver w")
       (auto simp: closeDriver_def getDriver_def handle_ok_def config_missing_def)
  have g: "getDriver ?w1 =
      (Inr (created ?w1), ?w1\<lparr>driver := Some (created ?w1), created := Suc (created ?w1)\<rparr>)"
    using cfg null by (rule getDriver_fresh)
  show "fst (checkNeo4jConnectivity None ?w1) = Inr True"
    by (simp add: checkNeo4jConnectivity_def g)
  show "fst (runCypherQuery run query params ?w1) = Inr records"
    if "run query (processParams params) = Inr records"
    using that by (simp add: runCypherQuery_def g)
  show "fst (getNeo4jSchema store domain ?w1) = Inr out"
    if "nodeTypesResult store = Inr ntr \<and> nodePropertiesResult store = Inr npr \<and>
       relationshipTypesResult store = Inr rtr \<and> relationshipPropertiesResult store = Inr rpr \<and>
       schemaOutput_of_records ntr npr rtr rpr domain = Inr out"
    using that by (simp add: getNeo4jSchema_def g)
  assume u: "uses_store op"
  have p: "driver (perform op ?w1) = Some (created ?w1) \<and>
        created (perform op ?w1) = Suc (created ?w1) \<and>
        used (perform op ?w1) = created ?w1 # used ?w1 \<and> closed (perform op ?w1) = closed ?w1"
    using cfg null u by (rule perform_on_null)
  from a have f: "created w \<notin> set (closed w) \<and> driver w \<noteq> Some (created w)"
    by (simp add: handle_ok_fresh)
  from p show "driver (perform op ?w1) = Some (created w)"
    and "created (perform op ?w1) = Suc (created w)"
    and "used (perform op ?w1) = created w # used w"
    by (simp_all add: closeDriver_completes)
  from f show "driver w \<noteq> Some (created w)" by simp
  from p f show "created w \<notin> set (closed (perform op ?w1))"
    by (cases "driver w") (auto simp: closeDriver_completes)
qed


text \<open>
  A world holding the first handle, already used once: after closing it, a query runs
  on the second handle, which becomes the handle of the variable.
\<close>

theorem handle_lifecycle_witness:
  "handle_ok
     \<lparr>process_env = \<lparr>NEO4J_URI = Some ''bolt://db'', NEO4J_USER = Some ''neo4j'',
                       NEO4J_PASSWORD = Some ''pw''\<rparr>,
      driver = Some 0, created = 1, closed = [], sessions_opened = 0, sessions_closed = 0,
      used = [0]\<rparr> \<and>
   driver (perform (RunCypherQuery (\<lambda>q p. Inr ''[]'') ''RETURN 1'' [])
     (snd (closeDriver None
       \<lparr>process_env = \<lparr>NEO4J_URI = Some ''bolt://db'', NEO4J_USER = Some ''neo4j'',
                         NEO4J_PASSWORD = Some ''pw''\<rparr>,
        driver = Some 0, created = 1, closed = [], sessions_opened = 0, sessions_closed = 0,
        used = [0]\<rparr>))) = Some 1 \<and>
   used (perform (RunCypherQuery (\<lambda>q p. Inr ''[]'') ''RETURN 1'' [])
     (snd (closeDriver None
       \<lparr>process_env = \<lparr>NEO4J_URI = Some ''bolt://db'', NEO4J_USER = Some ''neo4j'',
                         NEO4J_PASSWORD = Some ''pw''\<rparr>,
        driver = Some 0, created = 1, closed = [], sessions_opened = 0, sessions_closed = 0,
        used = [0]\<rparr>))) = [1, 0] \<and>
   closed (perform (RunCypherQuery (\<lambda>q p. Inr ''[]'') ''RETURN 1'' [])
     (snd (closeDriver None
       \<lparr>process_env = \<lparr>NEO4J_URI = Some ''bolt://db'', NEO4J_USER = Some ''neo4j'',
                         NEO4J_PASSWORD = Some ''pw''\<rparr>,
        driver = Some 0, created = 1, closed = [], sessions_opened = 0, sessions_closed = 0,
        used = [0]\<rparr>))) = [0] \<and>
   fst (runCypherQuery (\<lambda>q p. Inr ''[]'') ''RETURN 1'' []
     (snd (closeDriver None
       \<lparr>process_env = \<lparr>NEO4J_URI = Some ''bolt://db'', NEO4J_USER = Some ''neo4j'',
                         NEO4J_PASSWORD = Some ''pw''\<rparr>,
        driver = Some 0, created = 1, closed = [], sessions_opened = 0, sessions_closed = 0,
        used = [0]\<rparr>))) = Inr ''[]'' \<and>
   fst (checkNeo4jConnectivity None
     (snd (closeDriver None
       \<lparr>process_env = \<lparr>NEO4J_URI = Some ''bolt://db'', NEO4J_USER = Some ''neo4j'',
                         NEO4J_PASSWORD = Some ''pw''\<rparr>,
        driver = Some 0, created = 1, closed = [], sessions_opened = 0, sessions_closed = 0,
        used = [0]\<rparr>))) = Inr True"
proof -
  let ?e = "\<lparr>NEO4J_URI = Some ''bolt://db'', NEO4J_USER = Some ''neo4j'',
             NEO4J_PASSWORD = Some ''pw''\<rparr>"
  let ?w = "\<lparr>process_env = ?e,
      driver = Some 0, created = 1, closed = [], sessions_opened = 0, sessions_closed = 0,
      used = [0]\<rparr>"
  let ?run = "\<lambda>(q :: string) (p :: js_value js_object). (Inr ''[]'' :: js_error + string)"
  let ?op = "RunCypherQuery ?run ''RETURN 1'' []"
  let ?w1 = "snd (closeDriver None ?w)"
  have ok: "handle_ok ?w" by (simp add: handle_ok_def)
  have cfg: "\<not> config_missing ?w" by (simp add: config_missing_def)
  have u: "uses_store ?op" by simp
  have r: "?run ''RETURN 1'' (processParams []) = Inr ''[]''" by simp
  have c: "closed (perform ?op ?w1) = [0]"
    by (simp add: closeDriver_def runCypherQuery_def getDriver_def open_session_def
          close_session_def)
  from handle_lifecycle [where w = ?w and op = ?op and run = ?run and query = "''RETURN 1''"
      and params = "[]" and records = "''[]''"] ok cfg u r
  have "driver (perform ?op ?w1) = Some (created ?w) \<and>
        used (perform ?op ?w1) = created ?w # used ?w \<and>
        fst (runCypherQuery ?run ''RETURN 1'' [] ?w1) = Inr ''[]'' \<and>
        fst (checkNeo4jConnectivity None ?w1) = Inr True"
    by blast
  with ok c show ?thesis by simp
qed

end
